theory Spec2Isabelle
  imports Main
begin

section \<open>Worker grouping (orchestrator, \<open>getMinWorkersPerAddress\<close> and \<open>calculateWorkerGroups\<close>)\<close>

text \<open>
  Worker counts and worker ids are JavaScript numbers that the orchestrator only ever uses
  as non-negative integers (\<open>workerThreads\<close>, array lengths, counters); they are modelled as
  \<open>nat\<close>. Where the source divides, the JavaScript result for a zero divisor (\<open>Infinity\<close>
  or \<open>NaN\<close>) is written out, since \<open>n div 0 = 0\<close> in HOL.
\<close>

datatype grouping_mode = Auto | AllOnOne | Grouped

record DerivedAddress =
  index :: int
  bech32 :: string
  publicKeyHex :: string
  registered :: bool

text \<open>
  The configuration fields of the orchestrator that the grouping reads. The orchestrator
  record below extends this record, so the functions of this section apply to it directly.
\<close>

record GroupingConfig =
  workerGroupingMode :: grouping_mode
  workersPerAddress :: nat

text \<open>
  A group as returned by \<open>calculateWorkerGroups\<close>. \<open>addresses[i]\<close> past the end of the
  array is \<open>undefined\<close> in JavaScript, which is \<open>None\<close> here.
\<close>

record WorkerGroup =
  address :: "DerivedAddress option"
  workerIds :: "nat list"

fun nth_opt :: "'a list \<Rightarrow> nat \<Rightarrow> 'a option" where
  "nth_opt [] i = None"
| "nth_opt (x # xs) 0 = Some x"
| "nth_opt (x # xs) (Suc i) = nth_opt xs i"

definition getMinWorkersPerAddress :: "'a GroupingConfig_scheme \<Rightarrow> nat \<Rightarrow> string \<Rightarrow> nat" where
  "getMinWorkersPerAddress cfg totalWorkers difficulty =
     (if workerGroupingMode cfg = Grouped then workersPerAddress cfg
      else if workerGroupingMode cfg = AllOnOne then totalWorkers
      else if totalWorkers \<le> 4 then totalWorkers
      else max 3 (min 5 (totalWorkers div 4)))"

text \<open>
  The \<open>for\<close> loop of \<open>calculateWorkerGroups\<close>: \<open>i\<close> is the loop variable and
  \<open>workerIdCounter\<close> the counter that \<open>Array.from\<close> increments once per created id.
\<close>

function groupLoop ::
  "DerivedAddress list \<Rightarrow> nat \<Rightarrow> nat \<Rightarrow> nat \<Rightarrow> nat \<Rightarrow> nat \<Rightarrow> WorkerGroup list" where
  "groupLoop addresses actualGroupCount baseWorkersPerGroup extraWorkers i workerIdCounter =
     (if i < actualGroupCount then
        (let workersForThisGroup = baseWorkersPerGroup + (if i < extraWorkers then 1 else 0)
         in \<lparr>address = nth_opt addresses i,
              workerIds = [workerIdCounter ..< workerIdCounter + workersForThisGroup]\<rparr>
            # groupLoop addresses actualGroupCount baseWorkersPerGroup extraWorkers
                (i + 1) (workerIdCounter + workersForThisGroup))
      else [])"
  by pat_completeness auto
termination
  by (relation "measure (\<lambda>(a, g, b, e, i, c). g - i)") auto

declare groupLoop.simps [simp del]

definition calculateWorkerGroups ::
  "'a GroupingConfig_scheme \<Rightarrow> DerivedAddress list \<Rightarrow> nat \<Rightarrow> string \<Rightarrow> WorkerGroup list" where
  "calculateWorkerGroups cfg addresses availableWorkers difficulty =
     (let minWorkersPerAddress = getMinWorkersPerAddress cfg availableWorkers difficulty in
      if minWorkersPerAddress = 0 \<and> availableWorkers = 0 then []
        \<comment> \<open>\<open>0 / 0\<close> is \<open>NaN\<close>: every comparison with it is false and the loop body never runs\<close>
      else
        let actualGroupCount =
              (if minWorkersPerAddress = 0 then length addresses
                 \<comment> \<open>\<open>Math.floor(n / 0)\<close> is \<open>Infinity\<close>\<close>
               else min (availableWorkers div minWorkersPerAddress) (length addresses))
        in if actualGroupCount = 0 then
             [\<lparr>address = nth_opt addresses 0, workerIds = [0 ..< availableWorkers]\<rparr>]
           else
             groupLoop addresses actualGroupCount
               (availableWorkers div actualGroupCount) (availableWorkers mod actualGroupCount) 0 0)"

text \<open>The size and the first worker id of group \<open>i\<close> when \<open>W\<close> workers go to \<open>g\<close> groups.\<close>

definition groupSize :: "nat \<Rightarrow> nat \<Rightarrow> nat \<Rightarrow> nat" where
  "groupSize W g i = W div g + (if i < W mod g then 1 else 0)"

definition groupStart :: "nat \<Rightarrow> nat \<Rightarrow> nat \<Rightarrow> nat" where
  "groupStart W g i = i * (W div g) + min i (W mod g)"

section \<open>Strings and small helpers shared by the models\<close>

text \<open>
  JavaScript strings are modelled as \<open>string\<close>. \<open>startsWith\<close> and \<open>includes\<close> (here \<open>strIncludes\<close>, as \<open>includes\<close> is reserved) are the
  methods of \<open>String.prototype\<close>; \<open>toLowerCase\<close> is modelled on ASCII letters, which is
  what the matched English error messages consist of.
\<close>

definition startsWith :: "string \<Rightarrow> string \<Rightarrow> bool" where
  "startsWith s p = (take (length p) s = p)"

fun strIncludes :: "string \<Rightarrow> string \<Rightarrow> bool" where
  "strIncludes [] sub = (sub = [])"
| "strIncludes (c # cs) sub = (startsWith (c # cs) sub \<or> strIncludes cs sub)"

definition toLowerChar :: "char \<Rightarrow> char" where
  "toLowerChar c =
     (case map_of (zip ''ABCDEFGHIJKLMNOPQRSTUVWXYZ'' ''abcdefghijklmnopqrstuvwxyz'') c of
        None \<Rightarrow> c
      | Some l \<Rightarrow> l)"

definition toLowerCase :: "string \<Rightarrow> string" where
  "toLowerCase s = map toLowerChar s"

text \<open>Decimal rendering of a number inside a template string.\<close>

definition digitChar :: "nat \<Rightarrow> char" where
  "digitChar d = (if d < 10 then ''0123456789'' ! d else CHR ''?'')"

function showNat :: "nat \<Rightarrow> string" where
  "showNat n = (if n < 10 then [digitChar n] else showNat (n div 10) @ [digitChar (n mod 10)])"
  by pat_completeness auto
termination
  by (relation "measure id") auto

declare showNat.simps [simp del]

text \<open>
  \<open>a || b\<close> on optional strings: \<open>undefined\<close> and the empty string are falsy.
\<close>

definition orElse :: "string option \<Rightarrow> string option \<Rightarrow> string option" where
  "orElse a b = (case a of Some (c # cs) \<Rightarrow> a | _ \<Rightarrow> b)"

section \<open>Dev-fee manager (\<open>lib/devfee/manager.ts\<close>)\<close>

text \<open>
  Record fields are global names in Isabelle, so fields that several TypeScript interfaces
  share (\<open>address\<close>, \<open>enabled\<close>, \<open>currentChallengeId\<close>, ...) carry a short prefix here.
\<close>

record DevFeeConfig =
  enabled :: bool
  apiUrl :: string
  ratio :: nat
  cacheFile :: string
  clientId :: string

record DevFeeAddress =
  dfAddress :: string
  dfAddressIndex :: int
  fetchedAt :: nat
  usedCount :: nat

text \<open>
  The cache is whatever \<open>JSON.parse\<close> read from disk, so optional and legacy-missing fields
  are \<open>option\<close>s; \<open>addressPool\<close> itself may be missing, which is why \<open>hasValidAddressPool\<close>
  tests it first. For \<open>dfCurrentChallengeId\<close>, \<open>None\<close> stands for both \<open>undefined\<close> and \<open>null\<close>:
  the migration step of \<open>getDevFeeAddress\<close> only rewrites the former into the latter, and
  both differ from every string. \<open>solutionsThisChallenge\<close> is a counter the code only sets
  to \<open>0\<close> and increments.
\<close>

record DevFeeCache =
  currentAddress :: "DevFeeAddress option"
  totalDevFeeSolutions :: nat
  lastFetchError :: "string option"
  cacheClientId :: "string option"
  addressPool :: "DevFeeAddress list option"
  poolFetchedAt :: "nat option"
  cacheEnabled :: "bool option"
  dfCurrentChallengeId :: "string option"
  solutionsThisChallenge :: "nat option"

text \<open>
  \<open>saveCache\<close> writes the in-memory cache to the cache file and swallows any error; the
  file is not read again by the functions modelled here, so only the in-memory cache is kept.
\<close>

record DevFeeManager =
  config :: DevFeeConfig
  cache :: DevFeeCache

definition isEnabled :: "DevFeeManager \<Rightarrow> bool" where
  "isEnabled m = (enabled (config m) \<and> length (apiUrl (config m)) > 0)"

definition getRatio :: "DevFeeManager \<Rightarrow> nat" where
  "getRatio m = ratio (config m)"

definition hasValidAddressPool :: "DevFeeManager \<Rightarrow> bool" where
  "hasValidAddressPool m =
     (case addressPool (cache m) of None \<Rightarrow> False | Some pool \<Rightarrow> length pool = 10)"

text \<open>
  One entry of the \<open>addresses\<close> array of the API response. \<open>devAddress\<close> is \<open>None\<close> when
  the entry carries no string there: \<open>addr.address.startsWith\<close> then raises a \<open>TypeError\<close>,
  which the \<open>catch\<close> block of \<open>prefetchAddressPool\<close> handles.
\<close>

record ApiAddress =
  devAddress :: "string option"
  devAddressIndex :: int
  apiRegistered :: bool

text \<open>
  What \<open>axios.post\<close> does in \<open>prefetchAddressPool\<close>: it throws (the message the \<open>catch\<close>
  block computes is kept), or it returns a body whose \<open>addresses\<close> field may be missing.
\<close>

datatype prefetch_response =
    PostFailed string
  | PostReturned "ApiAddress list option"

datatype validation = AllValid | InvalidAt nat | RaisedTypeError

fun validateAddresses :: "ApiAddress list \<Rightarrow> nat \<Rightarrow> validation" where
  "validateAddresses [] i = AllValid"
| "validateAddresses (a # as) i =
     (case devAddress a of
        None \<Rightarrow> RaisedTypeError
      | Some s \<Rightarrow>
          if \<not> startsWith s ''tnight1'' \<and> \<not> startsWith s ''addr1'' then InvalidAt i
          else validateAddresses as (i + 1))"

definition toDevFeeAddress :: "nat \<Rightarrow> ApiAddress \<Rightarrow> DevFeeAddress" where
  "toDevFeeAddress now a =
     \<lparr>dfAddress = (case devAddress a of Some s \<Rightarrow> s | None \<Rightarrow> []),
      dfAddressIndex = devAddressIndex a, fetchedAt = now, usedCount = 0\<rparr>"

definition clearPool :: "string \<Rightarrow> DevFeeManager \<Rightarrow> DevFeeManager" where
  "clearPool msg m =
     m\<lparr>cache := (cache m)\<lparr>addressPool := Some [], poolFetchedAt := None,
                             lastFetchError := Some msg\<rparr>\<rparr>"

definition prefetchAddressPool ::
  "prefetch_response \<Rightarrow> nat \<Rightarrow> DevFeeManager \<Rightarrow> bool \<times> DevFeeManager" where
  "prefetchAddressPool response now m =
     (if \<not> isEnabled m then (False, m)
      else case response of
        PostFailed errorMsg \<Rightarrow> (False, clearPool errorMsg m)
      | PostReturned None \<Rightarrow> (False, clearPool (''API returned '' @ showNat 0 @ ''/10 addresses'') m)
      | PostReturned (Some addressesData) \<Rightarrow>
          if length addressesData \<noteq> 10 then
            (False, clearPool (''API returned '' @ showNat (length addressesData) @ ''/10 addresses'') m)
          else
            (case validateAddresses addressesData 0 of
               InvalidAt i \<Rightarrow> (False, clearPool (''Invalid address format at index '' @ showNat i) m)
             | RaisedTypeError \<Rightarrow>
                 (False, clearPool ''Cannot read properties of undefined'' m)
             | AllValid \<Rightarrow>
                 (True, m\<lparr>cache := (cache m)\<lparr>addressPool := Some (map (toDevFeeAddress now) addressesData),
                                               poolFetchedAt := Some now,
                                               lastFetchError := None\<rparr>\<rparr>)))"

datatype devfee_error = NoValidAddressPool | NoAddressAtPoolIndex nat

definition getDevFeeAddress ::
  "string \<Rightarrow> DevFeeManager \<Rightarrow> (devfee_error + string) \<times> DevFeeManager" where
  "getDevFeeAddress challengeIdArg m =
     (if \<not> hasValidAddressPool m then (Inl NoValidAddressPool, m)
      else
        let c0 = cache m;
            c1 = (if solutionsThisChallenge c0 = None then c0\<lparr>solutionsThisChallenge := Some 0\<rparr> else c0);
            c2 = (if dfCurrentChallengeId c1 \<noteq> Some challengeIdArg
                  then c1\<lparr>dfCurrentChallengeId := Some challengeIdArg, solutionsThisChallenge := Some 0\<rparr>
                  else c1);
            poolIndex = (case solutionsThisChallenge c2 of Some n \<Rightarrow> n mod 10 | None \<Rightarrow> 0);
            pool = (case addressPool c2 of Some p \<Rightarrow> p | None \<Rightarrow> [])
        in case nth_opt pool poolIndex of
             None \<Rightarrow> (Inl (NoAddressAtPoolIndex poolIndex), m\<lparr>cache := c2\<rparr>)
           | Some a \<Rightarrow> (Inr (dfAddress a), m\<lparr>cache := c2\<rparr>))"

definition recordDevFeeSolution :: "DevFeeManager \<Rightarrow> DevFeeManager" where
  "recordDevFeeSolution m =
     (let c = cache m
      in m\<lparr>cache := c\<lparr>totalDevFeeSolutions := totalDevFeeSolutions c + 1,
                        solutionsThisChallenge :=
                          Some ((case solutionsThisChallenge c of None \<Rightarrow> 0 | Some n \<Rightarrow> n) + 1),
                        currentAddress :=
                          map_option (\<lambda>a. a\<lparr>usedCount := usedCount a + 1\<rparr>) (currentAddress c)\<rparr>\<rparr>)"

definition syncWithReceipts :: "nat \<Rightarrow> DevFeeManager \<Rightarrow> DevFeeManager" where
  "syncWithReceipts actualDevFeeCount m =
     m\<lparr>cache := (cache m)\<lparr>totalDevFeeSolutions := actualDevFeeCount\<rparr>\<rparr>"

section \<open>Orchestrator state\<close>

record Challenge =
  challenge_id :: string
  difficulty :: string
  latest_submission :: string
  no_pre_mine :: string
  no_pre_mine_hour :: string

datatype worker_status = Idle | Mining | Submitting | Completed

text \<open>
  \<open>WorkerStats\<close> without its wall-clock fields (\<open>hashRate\<close>, \<open>startTime\<close>,
  \<open>lastUpdateTime\<close>); \<open>workerId\<close> is the key of the map that holds the entry.
\<close>

record WorkerStats =
  wsAddressIndex :: int
  wsAddress :: string
  wsHashesComputed :: nat
  wsSolutionsFound :: nat
  wsStatus :: worker_status
  wsCurrentChallenge :: string

text \<open>The body of an HTTP response of the scavenger service, as far as the code reads it.\<close>

record ResponseData =
  rdMessage :: "string option"
  rdError :: "string option"
  crypto_receipt :: "string option"

text \<open>Entries of the receipts log and of the error log (without their timestamps).\<close>

record ReceiptEntry =
  rAddress :: string
  rAddressIndex :: int
  rChallengeId :: string
  rNonce :: string
  rHash :: string
  rCryptoReceipt :: "string option"
  isDevFee :: bool

record ErrorEntry =
  eAddress :: string
  eAddressIndex :: int
  eChallengeId :: string
  eNonce :: string
  eHash :: string
  eError :: string
  eResponse :: "ResponseData option"

text \<open>
  Calls into collaborators whose code is outside the orchestrator (hash engine, wallet
  manager, timers of the runtime), recorded in the order they are made.
\<close>

datatype ext_call =
    KillWorkers
  | InitRom string
  | Sleep nat
  | LoadWallet
  | MarkAddressRegistered int
  | PollLoop
  | ScheduleHourlyRestart
  | StartWatchdog
  | StartMining

text \<open>
  The fields of \<open>MiningOrchestrator\<close>, followed by the state of the singletons it imports:
  the two files of \<open>receiptsLogger\<close>, \<open>devFeeManager\<close>, the readiness of the hash engine's
  ROM, the events emitted through \<open>EventEmitter\<close> (by type) and the external calls made.
  Timers are \<open>True\<close> when armed and \<open>walletManager\<close> is \<open>True\<close> when the field is not
  \<open>null\<close>. A JavaScript \<open>Map\<close> keeps insertion order, which \<open>workerStats\<close> is iterated
  in, so it is an association list; the other maps and sets are only looked up.
  Console output and the diagnostic \<open>Logger\<close> are not state and are left out, as are the
  fields of the CPU-usage display.
\<close>

record Orchestrator = GroupingConfig +
  isRunning :: bool
  currentChallengeId :: "string option"
  pollTimer :: bool
  walletManager :: bool
  isDevFeeMining :: bool
  addresses :: "DerivedAddress list"
  solutionsFound :: nat
  startTime :: "nat option"
  isMining :: bool
  currentChallenge :: "Challenge option"
  totalHashesComputed :: nat
  lastHashRateUpdate :: nat
  addressesProcessedCurrentChallenge :: "int set"
  solutionTimestamps :: "nat list"
  workerThreads :: nat
  submittedSolutions :: "string set"
  solvedAddressChallenges :: "string \<rightharpoonup> string set"
  userSolutionsCount :: nat
  submittingAddresses :: "string set"
  pausedAddresses :: "string set"
  workerStats :: "(nat \<times> WorkerStats) list"
  hourlyRestartTimer :: bool
  watchdogTimer :: bool
  stoppedWorkers :: "nat set"
  addressSubmissionFailures :: "string \<rightharpoonup> nat"
  customBatchSize :: "nat option"
  receipts :: "ReceiptEntry list"
  errors :: "ErrorEntry list"
  devFeeManager :: DevFeeManager
  romReady :: bool
  emitted :: "string list"
  calls :: "ext_call list"

definition getBatchSize :: "Orchestrator \<Rightarrow> nat" where
  "getBatchSize s = (case customBatchSize s of None \<Rightarrow> 300 | Some n \<Rightarrow> if n = 0 then 300 else n)"

text \<open>\<open>solvedAddressChallenges.get(a)?.has(c)\<close>.\<close>

definition isSolved :: "Orchestrator \<Rightarrow> string \<Rightarrow> string \<Rightarrow> bool" where
  "isSolved s a c = (case solvedAddressChallenges s a of None \<Rightarrow> False | Some cs \<Rightarrow> c \<in> cs)"

text \<open>
  \<open>if (!solved.has(a)) solved.set(a, new Set()); solved.get(a).add(c)\<close>.
\<close>

definition markSolved :: "string \<Rightarrow> string \<Rightarrow> Orchestrator \<Rightarrow> Orchestrator" where
  "markSolved a c s =
     s\<lparr>solvedAddressChallenges :=
         (solvedAddressChallenges s)(a \<mapsto>
            insert c (case solvedAddressChallenges s a of None \<Rightarrow> {} | Some cs \<Rightarrow> cs))\<rparr>"

text \<open>\<open>const set = solved.get(a); if (set) set.delete(c)\<close>.\<close>

definition unmarkSolved :: "string \<Rightarrow> string \<Rightarrow> Orchestrator \<Rightarrow> Orchestrator" where
  "unmarkSolved a c s =
     (case solvedAddressChallenges s a of
        None \<Rightarrow> s
      | Some cs \<Rightarrow> s\<lparr>solvedAddressChallenges := (solvedAddressChallenges s)(a \<mapsto> cs - {c})\<rparr>)"

text \<open>\<open>Map.set\<close> and an in-place change of the entry of a key, on the association list.\<close>

definition mapSet :: "nat \<Rightarrow> 'v \<Rightarrow> (nat \<times> 'v) list \<Rightarrow> (nat \<times> 'v) list" where
  "mapSet k v xs =
     (if k \<in> fst ` set xs then map (\<lambda>(k', v'). if k' = k then (k', v) else (k', v')) xs
      else xs @ [(k, v)])"

definition mapChange :: "nat \<Rightarrow> ('v \<Rightarrow> 'v) \<Rightarrow> (nat \<times> 'v) list \<Rightarrow> (nat \<times> 'v) list" where
  "mapChange k f xs = map (\<lambda>(k', v'). if k' = k then (k', f v') else (k', v')) xs"

definition emit :: "string \<Rightarrow> Orchestrator \<Rightarrow> Orchestrator" where
  "emit ev s = s\<lparr>emitted := emitted s @ [ev]\<rparr>"

definition logError :: "ErrorEntry \<Rightarrow> Orchestrator \<Rightarrow> Orchestrator" where
  "logError e s = s\<lparr>errors := errors s @ [e]\<rparr>"

definition logReceipt :: "ReceiptEntry \<Rightarrow> Orchestrator \<Rightarrow> Orchestrator" where
  "logReceipt r s = s\<lparr>receipts := receipts s @ [r]\<rparr>"

section \<open>Submitting a solution (\<open>submitSolution\<close>, \<open>registerAddress\<close>)\<close>

text \<open>
  A JavaScript error object as the \<open>catch\<close> block of \<open>submitSolution\<close> reads it:
  \<open>error.code\<close>, \<open>error.message\<close> and, for an error raised by axios that carries a
  response, \<open>error.response.status\<close> and \<open>error.response.data\<close>.
\<close>

record JsError =
  errCode :: "string option"
  errMessage :: string
  errResponse :: "(nat \<times> ResponseData option) option"

text \<open>
  What \<open>axios.post\<close> does for the solution URL. With \<open>validateStatus: status < 500\<close> it
  returns the response for every status below 500 (\<open>Responded status statusText data\<close>) and
  throws for the others and for network errors (\<open>Threw error\<close>).
\<close>

datatype post_result =
    Responded nat string "ResponseData option"
  | Threw JsError

text \<open>
  The outcomes of the awaited calls of one \<open>submitSolution\<close>: the POST, the registration of
  the address if it is attempted (\<open>None\<close> when it succeeds), the POST of the retry, and the
  clock.
\<close>

record SubmitEnv =
  post :: post_result
  registration :: "JsError option"
  retryPost :: post_result
  timeNow :: nat

definition plainError :: "string \<Rightarrow> JsError" where
  "plainError msg = \<lparr>errCode = None, errMessage = msg, errResponse = None\<rparr>"

definition responseData :: "JsError \<Rightarrow> ResponseData option" where
  "responseData e = (case errResponse e of None \<Rightarrow> None | Some (st, d) \<Rightarrow> d)"

definition responseStatus :: "JsError \<Rightarrow> nat option" where
  "responseStatus e = map_option fst (errResponse e)"

definition dataMessage :: "JsError \<Rightarrow> string option" where
  "dataMessage e = (case responseData e of None \<Rightarrow> None | Some d \<Rightarrow> rdMessage d)"

definition dataError :: "JsError \<Rightarrow> string option" where
  "dataError e = (case responseData e of None \<Rightarrow> None | Some d \<Rightarrow> rdError d)"

text \<open>
  \<open>error.response?.data?.message || error.response?.data?.error || error.message || ''\<close>.
\<close>

definition errorMessageOf :: "JsError \<Rightarrow> string" where
  "errorMessageOf e =
     (case orElse (orElse (dataMessage e) (dataError e)) (Some (errMessage e)) of
        None \<Rightarrow> [] | Some m \<Rightarrow> m)"

definition isSolutionAlreadyExists :: "JsError \<Rightarrow> bool" where
  "isSolutionAlreadyExists e =
     (let errorMessage = errorMessageOf e
      in strIncludes (toLowerCase errorMessage) ''already exists''
       \<or> strIncludes (toLowerCase errorMessage) ''solution already''
       \<or> (responseStatus e = Some 400 \<and> strIncludes (toLowerCase errorMessage) ''duplicate''))"

definition isNotRegisteredError :: "JsError \<Rightarrow> bool" where
  "isNotRegisteredError e =
     (let errorMessage = errorMessageOf e
      in strIncludes (toLowerCase errorMessage) ''not registered''
       \<or> strIncludes (toLowerCase errorMessage) ''unregistered''
       \<or> responseStatus e = Some 403)"

definition isTimeoutError :: "JsError \<Rightarrow> bool" where
  "isTimeoutError e =
     (errCode e = Some ''ECONNABORTED'' \<or> strIncludes (toLowerCase (errMessage e)) ''timeout'')"

definition errorEntry ::
  "DerivedAddress \<Rightarrow> string \<Rightarrow> string \<Rightarrow> string \<Rightarrow> string \<Rightarrow> ResponseData option \<Rightarrow> ErrorEntry" where
  "errorEntry a cid nonce hash msg resp =
     \<lparr>eAddress = bech32 a, eAddressIndex = index a, eChallengeId = cid, eNonce = nonce,
      eHash = hash, eError = msg, eResponse = resp\<rparr>"

text \<open>
  \<open>registerAddress\<close>: the three awaited calls (terms and conditions, signature, POST) either
  all succeed or one of them throws; on success the address object, which the
  \<open>addresses\<close> array shares, is marked registered.
\<close>

definition registerAddress ::
  "JsError option \<Rightarrow> DerivedAddress \<Rightarrow> Orchestrator \<Rightarrow> (JsError + unit) \<times> Orchestrator" where
  "registerAddress outcome a s =
     (if \<not> walletManager s then (Inl (plainError ''Wallet manager not initialized''), s)
      else case outcome of
        Some e \<Rightarrow> (Inl e, s)
      | None \<Rightarrow>
          (Inr (),
           s\<lparr>addresses := map (\<lambda>b. if index b = index a then b\<lparr>registered := True\<rparr> else b) (addresses s),
             calls := calls s @ [MarkAddressRegistered (index a)]\<rparr>))"

text \<open>The statements of the \<open>try\<close> block after a 2xx response.\<close>

definition solutionAccepted ::
  "nat \<Rightarrow> DerivedAddress \<Rightarrow> string \<Rightarrow> string \<Rightarrow> string \<Rightarrow> bool \<Rightarrow> ResponseData option
     \<Rightarrow> Orchestrator \<Rightarrow> Orchestrator" where
  "solutionAccepted t a cid nonce hash devFee dat s =
     (let s1 = s\<lparr>solutionsFound := solutionsFound s + 1\<rparr>;
          s2 = (if devFee then s1\<lparr>devFeeManager := recordDevFeeSolution (devFeeManager s1)\<rparr>
                else s1\<lparr>userSolutionsCount := userSolutionsCount s1 + 1\<rparr>);
          s3 = s2\<lparr>solutionTimestamps := solutionTimestamps s2 @ [t]\<rparr>;
          s4 = logReceipt
                 \<lparr>rAddress = bech32 a, rAddressIndex = index a, rChallengeId = cid, rNonce = nonce,
                  rHash = hash,
                  rCryptoReceipt = (case dat of None \<Rightarrow> None | Some d \<Rightarrow> crypto_receipt d),
                  isDevFee = devFee\<rparr> s3
      in emit ''solution'' (emit ''solution_result'' s4))"

text \<open>
  \<open>submitSolution\<close>. The result is \<open>Inr ()\<close> when the promise resolves and \<open>Inl e\<close> when it
  rejects with \<open>e\<close>. The only recursive call is the retry after a registration, made with
  \<open>isRetryAfterRegistration = true\<close>, which cannot recurse again. The error entry of
  a timeout carries the literal \<open>{timeout: true, duration: '60s'}\<close> as its response, which
  is no service response and is \<open>None\<close> here.
\<close>

function submitSolution ::
  "SubmitEnv \<Rightarrow> DerivedAddress \<Rightarrow> string \<Rightarrow> string \<Rightarrow> string \<Rightarrow> bool \<Rightarrow> bool \<Rightarrow> Orchestrator
     \<Rightarrow> (JsError + unit) \<times> Orchestrator" where
  "submitSolution env a cid nonce hash devFee isRetryAfterRegistration s =
     (if \<not> walletManager s then (Inr (), s)
      else
        let thrown =
              (case post env of
                 Threw e \<Rightarrow> Some e
               | Responded status statusText dat \<Rightarrow>
                   if 200 \<le> status \<and> status < 300 then None
                   else Some (plainError (''Server rejected solution: '' @ showNat status @ '' '' @ statusText)))
        in case thrown of
          None \<Rightarrow>
            (Inr (),
             solutionAccepted (timeNow env) a cid nonce hash devFee
               (case post env of Responded status statusText dat \<Rightarrow> dat | Threw e \<Rightarrow> None) s)
        | Some error \<Rightarrow>
            if isSolutionAlreadyExists error then
              (Inr (),
               logError (errorEntry a cid nonce hash
                           ''Duplicate submission - solution already exists (another worker succeeded)''
                           (responseData error))
                 (markSolved (bech32 a) cid s))
            else if isNotRegisteredError error \<and> \<not> isRetryAfterRegistration then
              (case registerAddress (registration env) a s of
                 (Inl registrationError, s1) \<Rightarrow>
                   (Inl registrationError,
                    emit ''solution_result''
                      (logError (errorEntry a cid nonce hash
                                   (''Auto-registration failed: '' @ errMessage registrationError
                                      @ ''. Original error: '' @ errorMessageOf error)
                                   (responseData error)) s1))
               | (Inr u, s1) \<Rightarrow>
                   (case submitSolution (env\<lparr>post := retryPost env\<rparr>) a cid nonce hash devFee True s1 of
                      (Inr v, s2) \<Rightarrow> (Inr (), s2)
                    | (Inl registrationError, s2) \<Rightarrow>
                        (Inl registrationError,
                         emit ''solution_result''
                           (logError (errorEntry a cid nonce hash
                                        (''Auto-registration failed: '' @ errMessage registrationError
                                           @ ''. Original error: '' @ errorMessageOf error)
                                        (responseData error)) s2))))
            else if isTimeoutError error then
              (Inl error,
               logError (errorEntry a cid nonce hash
                           ''Submission timeout after 60s - uncertain state (may have been accepted by server)''
                           None) s)
            else
              (Inl error,
               emit ''solution_result''
                 (logError (errorEntry a cid nonce hash
                              (case orElse (dataMessage error) (Some (errMessage error)) of
                                 None \<Rightarrow> [] | Some m \<Rightarrow> m)
                              (responseData error)) s)))"
  by pat_completeness auto
termination
  by (relation "measure (\<lambda>(env, a, cid, nonce, hash, devFee, isRetry, s). if isRetry then 0 else 1)")
     auto

declare submitSolution.simps [simp del]

section \<open>JavaScript numbers\<close>

text \<open>
  A JavaScript number is an IEEE 754 double. The nonces of a worker are computed with \<open>*\<close>,
  \<open>+\<close> and \<open>+=\<close> on such numbers, from a worker id and a loop index that are non-negative
  integers, so every value is a non-negative integer or \<open>Infinity\<close>. A double that is a
  non-negative integer is modelled by that natural number, and \<open>Infinity\<close> by \<open>2 ^ 1024\<close>,
  the least power of two above every finite double; the order of the naturals is then the
  order of the doubles.

  \<open>ulp n\<close> is the distance between neighbouring doubles at \<open>n\<close>: \<open>1\<close> below \<open>2 ^ 53 =
  9007199254740992\<close>, and twice as much each time \<open>n\<close> doubles. \<open>toDouble n\<close> is the double
  nearest to the natural number \<open>n\<close>, the even one of two that are equally near, and
  \<open>Infinity\<close> from \<open>2 ^ 1024 - 2 ^ 970\<close> on: it is the value of a sum or product of doubles
  whose exact value is \<open>n\<close>.
\<close>

function ulp :: "nat \<Rightarrow> nat" where
  "ulp n = (if n < 9007199254740992 then 1 else 2 * ulp (n div 2))"
  by pat_completeness auto
termination
  by (relation "measure id") auto

declare ulp.simps [simp del]

definition INFINITY :: nat where
  "INFINITY = 2 ^ 1024"

definition toDouble :: "nat \<Rightarrow> nat" where
  "toDouble n =
     (let u = ulp n; q = n div u; r = n mod u;
          rounded = (if 2 * r < u \<or> (2 * r = u \<and> even q) then q * u else (q + 1) * u)
      in min rounded INFINITY)"


section \<open>The mining worker (\<open>mineForAddress\<close>)\<close>

text \<open>
  \<open>mineForAddress\<close> is an \<open>async\<close> function. JavaScript runs the statements between two
  \<open>await\<close>s without interruption, and at an \<open>await\<close> any other task (the poller, the
  other workers, the timers) may change the orchestrator. The model therefore has one
  function for each such run of statements. Each takes the orchestrator as it is when the
  worker is resumed and returns the orchestrator as the worker leaves it, together with the
  point where the worker is suspended next.

  \<open>matchesDifficulty\<close> and \<open>buildPreimage\<close> live in modules outside this development.
  \<open>matchesDifficulty\<close> is a parameter \<open>md\<close> of the functions that call it. The preimage
  and the hexadecimal nonce are functions of the nonce number and only feed the hash engine
  and the submission URL; batches are lists of nonce numbers, and the hashes that the
  engine returns are inputs.

  The nonce numbers are doubles, computed with \<open>toDouble\<close>; the worker id is a double
  itself, so that its product with \<open>NONCE_RANGE_SIZE\<close> is rounded once. The loop index of a
  batch is
  a natural number: the loop ends before \<open>currentNonce + i\<close> reaches \<open>nonceEnd\<close>, which lies
  less than \<open>4 * 10^9\<close> above \<open>nonceStart\<close>, so the index is exact. The counters of hashes
  and batches are natural numbers too, exact as long as they stay below \<open>2 ^ 53\<close>.
\<close>

text \<open>The parameters and the constants captured when \<open>mineForAddress\<close> starts.\<close>

record WorkerCtx =
  addr :: DerivedAddress
  devFeeWorker :: bool
  workerId :: nat
  maxFailures :: nat
  challengeId :: string
  challenge :: Challenge
  BATCH_SIZE :: nat

text \<open>The \<open>let\<close> variables of the mining loop.\<close>

record WorkerLocal =
  hashCount :: nat
  batchCounter :: nat
  currentNonce :: nat

definition NONCE_RANGE_SIZE :: nat where
  "NONCE_RANGE_SIZE = 1000000000"

text \<open>\<open>workerId * NONCE_RANGE_SIZE\<close> and \<open>nonceStart + NONCE_RANGE_SIZE\<close>.\<close>

definition nonceStart :: "WorkerCtx \<Rightarrow> nat" where
  "nonceStart ctx = toDouble (workerId ctx * NONCE_RANGE_SIZE)"

definition nonceEnd :: "WorkerCtx \<Rightarrow> nat" where
  "nonceEnd ctx = toDouble (nonceStart ctx + NONCE_RANGE_SIZE)"

definition submissionKey :: "WorkerCtx \<Rightarrow> string" where
  "submissionKey ctx = bech32 (addr ctx) @ '':'' @ challengeId ctx"

text \<open>\<open>nonceNum.toString(16).padStart(16, '0')\<close>.\<close>

definition hexDigit :: "nat \<Rightarrow> char" where
  "hexDigit d = (if d < 16 then ''0123456789abcdef'' ! d else CHR ''?'')"

function toHex :: "nat \<Rightarrow> string" where
  "toHex n = (if n < 16 then [hexDigit n] else toHex (n div 16) @ [hexDigit (n mod 16)])"
  by pat_completeness auto
termination
  by (relation "measure id") auto

declare toHex.simps [simp del]

definition nonceHex :: "nat \<Rightarrow> string" where
  "nonceHex n = replicate (16 - length (toHex n)) CHR ''0'' @ toHex n"

text \<open>Where a worker is suspended, or how it ended.\<close>

datatype suspended =
    Returned
    \<comment> \<open>a \<open>return\<close> inside the loop\<close>
  | Finished
    \<comment> \<open>the loop was left and the worker marked idle\<close>
  | AwaitPauseSleep WorkerLocal
    \<comment> \<open>\<open>await this.sleep(100)\<close> of a paused worker\<close>
  | AwaitHashBatch WorkerLocal "nat list"
    \<comment> \<open>\<open>await hashEngine.hashBatchAsync(preimages)\<close> for the batch of these nonces\<close>
  | AwaitServerHash WorkerLocal "string list" "nat list" nat string Challenge
    \<comment> \<open>the re-hash under \<open>validationChallenge\<close> for the found nonce and hash; the lists
        are the hashes and nonces of the batch still to be scanned\<close>
  | AwaitSubmit WorkerLocal "string list" "nat list" nat string
    \<comment> \<open>\<open>await this.submitSolution(...)\<close> for the found nonce and hash\<close>
  | AwaitBackoff WorkerLocal bool
    \<comment> \<open>the sleep in the \<open>catch\<close> block; \<open>True\<close> for the timeout branch that ends in
        \<open>continue\<close>\<close>

text \<open>What \<open>hashBatchAsync\<close> delivers: it throws with a message or returns hashes.\<close>

datatype hash_result = HashFailed string | Hashes "string list"

definition setStatus :: "nat \<Rightarrow> worker_status \<Rightarrow> Orchestrator \<Rightarrow> Orchestrator" where
  "setStatus w st s = s\<lparr>workerStats := mapChange w (\<lambda>d. d\<lparr>wsStatus := st\<rparr>) (workerStats s)\<rparr>"

text \<open>
  The start of \<open>mineForAddress\<close>, up to the loop. \<open>None\<close> is an early \<open>return\<close>.
  \<open>specificChallengeId\<close> and \<open>specificChallenge\<close> are the two optional parameters.
\<close>

definition mineForAddressEntry ::
  "DerivedAddress \<Rightarrow> bool \<Rightarrow> nat \<Rightarrow> nat \<Rightarrow> string option \<Rightarrow> Challenge option \<Rightarrow> Orchestrator
     \<Rightarrow> (WorkerCtx \<times> WorkerLocal) option \<times> Orchestrator" where
  "mineForAddressEntry a devFee w maxFail specificChallengeId specificChallenge s =
     (let challengeToUse = (case specificChallenge of Some c \<Rightarrow> Some c | None \<Rightarrow> currentChallenge s);
          challengeIdToUse = orElse specificChallengeId (currentChallengeId s)
      in case (challengeToUse, challengeIdToUse) of
           (Some ch, Some (c # cs)) \<Rightarrow>
             if \<not> romReady s then (None, s)
             else
               let ctx = \<lparr>addr = a, devFeeWorker = devFee, workerId = w, maxFailures = maxFail,
                          challengeId = c # cs, challenge = ch, BATCH_SIZE = getBatchSize s\<rparr>;
                   s1 = s\<lparr>addressesProcessedCurrentChallenge :=
                            insert (index a) (addressesProcessedCurrentChallenge s),
                          workerStats :=
                            mapSet w \<lparr>wsAddressIndex = index a, wsAddress = bech32 a,
                                      wsHashesComputed = 0, wsSolutionsFound = 0,
                                      wsStatus = Mining, wsCurrentChallenge = c # cs\<rparr>
                              (workerStats s)\<rparr>
               in (Some (ctx, \<lparr>hashCount = 0, batchCounter = 0, currentNonce = nonceStart ctx\<rparr>),
                   emit ''mining_start'' s1)
         | _ \<Rightarrow> (None, s))"

text \<open>
  The \<open>for\<close> loop that builds a batch, from index \<open>i\<close> on, with \<open>nonce0\<close> the value of
  \<open>currentNonce\<close>. \<open>None\<close> is the \<open>return\<close> of a stopped worker; a \<open>break\<close> ends the batch
  with what it holds.
\<close>

function generateBatch :: "Orchestrator \<Rightarrow> WorkerCtx \<Rightarrow> nat \<Rightarrow> nat \<Rightarrow> nat list option" where
  "generateBatch s ctx nonce0 i =
     (if i < BATCH_SIZE ctx \<and> toDouble (nonce0 + i) < nonceEnd ctx then
        if workerId ctx \<in> stoppedWorkers s then None
        else if \<not> isRunning s \<or> \<not> isMining s \<or> currentChallengeId s \<noteq> Some (challengeId ctx)
          then Some []
        else if submissionKey ctx \<in> pausedAddresses s then Some []
        else map_option ((#) (toDouble (nonce0 + i))) (generateBatch s ctx nonce0 (i + 1))
      else Some [])"
  by pat_completeness auto
termination
  by (relation "measure (\<lambda>(s, ctx, n, i). BATCH_SIZE ctx - i)") auto

declare generateBatch.simps [simp del]

text \<open>After the loop: \<open>finalWorkerData.status = 'idle'\<close>.\<close>

definition workerFinished :: "WorkerCtx \<Rightarrow> Orchestrator \<Rightarrow> suspended \<times> Orchestrator" where
  "workerFinished ctx s = (Finished, setStatus (workerId ctx) Idle s)"

text \<open>
  From the test of the \<open>while\<close> condition to the call of \<open>hashBatchAsync\<close>.
\<close>

definition loopHead :: "WorkerCtx \<Rightarrow> WorkerLocal \<Rightarrow> Orchestrator \<Rightarrow> suspended \<times> Orchestrator" where
  "loopHead ctx loc s =
     (if isRunning s \<and> isMining s \<and> currentChallengeId s = Some (challengeId ctx)
         \<and> currentNonce loc < nonceEnd ctx then
        if (case addressSubmissionFailures s (submissionKey ctx) of None \<Rightarrow> 0 | Some n \<Rightarrow> n)
             \<ge> maxFailures ctx then (Returned, s)
        else if isSolved s (bech32 (addr ctx)) (challengeId ctx) then (Returned, s)
        else if workerId ctx \<in> stoppedWorkers s then
          (Returned,
           if workerId ctx \<in> fst ` set (workerStats s)
           then emit ''worker_update'' (setStatus (workerId ctx) Idle s) else s)
        else if submissionKey ctx \<in> pausedAddresses s then (AwaitPauseSleep loc, s)
        else
          (case generateBatch s ctx (currentNonce loc) 0 of
             None \<Rightarrow> (Returned, s)
           | Some batchData \<Rightarrow>
               let loc1 = loc\<lparr>batchCounter := batchCounter loc + 1,
                              currentNonce := toDouble (currentNonce loc + length batchData)\<rparr>
               in if batchData = [] then workerFinished ctx s
                  else (AwaitHashBatch loc1 batchData, s))
      else workerFinished ctx s)"

text \<open>
  The progress report at the end of a loop iteration (\<open>PROGRESS_INTERVAL\<close> is 1), followed
  by the next test of the loop condition.
\<close>

definition reportProgress :: "WorkerCtx \<Rightarrow> WorkerLocal \<Rightarrow> Orchestrator \<Rightarrow> Orchestrator" where
  "reportProgress ctx loc s =
     (let s1 = (if workerId ctx \<in> fst ` set (workerStats s)
                then emit ''worker_update''
                       (s\<lparr>workerStats :=
                            mapChange (workerId ctx) (\<lambda>d. d\<lparr>wsHashesComputed := hashCount loc\<rparr>)
                              (workerStats s)\<rparr>)
                else s)
      in emit ''stats'' (emit ''hash_progress'' s1))"

definition endOfIteration :: "WorkerCtx \<Rightarrow> WorkerLocal \<Rightarrow> Orchestrator \<Rightarrow> suspended \<times> Orchestrator" where
  "endOfIteration ctx loc s = loopHead ctx loc (reportProgress ctx loc s)"

text \<open>The \<open>catch\<close> block around the hashing and the scan, up to its sleep.\<close>

definition catchBatchError :: "WorkerLocal \<Rightarrow> string \<Rightarrow> Orchestrator \<Rightarrow> suspended \<times> Orchestrator" where
  "catchBatchError loc msg s =
     (if msg \<noteq> [] \<and> (strIncludes msg ''408'' \<or> strIncludes msg ''timeout'' \<or> strIncludes msg ''ETIMEDOUT'')
      then (AwaitBackoff loc True, emit ''error'' s)
      else (AwaitBackoff loc False, s))"

text \<open>
  The statements from \<open>submittingAddresses.add\<close> to \<open>submittedSolutions.add\<close> when a new
  solution is found: take the submission lock, stop the other workers that mine the same
  address, pause the address, mark this worker as submitting, remember the hash.
\<close>

definition claimSubmission :: "WorkerCtx \<Rightarrow> string \<Rightarrow> Orchestrator \<Rightarrow> Orchestrator" where
  "claimSubmission ctx hash s =
     (let siblings = map fst (filter (\<lambda>(otherWorkerId, stats).
                         otherWorkerId \<noteq> workerId ctx \<and> wsAddressIndex stats = index (addr ctx)
                           \<and> wsStatus stats = Mining) (workerStats s))
      in emit ''solution_submit''
           (s\<lparr>submittingAddresses := insert (submissionKey ctx) (submittingAddresses s),
              stoppedWorkers := stoppedWorkers s \<union> set siblings,
              pausedAddresses := insert (submissionKey ctx) (pausedAddresses s),
              workerStats :=
                mapChange (workerId ctx)
                  (\<lambda>d. d\<lparr>wsStatus := Submitting, wsSolutionsFound := wsSolutionsFound d + 1\<rparr>)
                  (workerStats s),
              submittedSolutions := insert hash (submittedSolutions s)\<rparr>))"

text \<open>\<open>pausedAddresses.delete(key); submittingAddresses.delete(key)\<close>.\<close>

definition releaseLocks :: "WorkerCtx \<Rightarrow> Orchestrator \<Rightarrow> Orchestrator" where
  "releaseLocks ctx s =
     s\<lparr>pausedAddresses := pausedAddresses s - {submissionKey ctx},
       submittingAddresses := submittingAddresses s - {submissionKey ctx}\<rparr>"

definition dataChanged :: "Challenge \<Rightarrow> Challenge \<Rightarrow> bool" where
  "dataChanged frozen validationChallenge =
     (latest_submission frozen \<noteq> latest_submission validationChallenge
      \<or> no_pre_mine_hour frozen \<noteq> no_pre_mine_hour validationChallenge
      \<or> no_pre_mine frozen \<noteq> no_pre_mine validationChallenge)"

text \<open>
  The check \<open>validationChallenge.difficulty !== difficulty\<close> with its re-validation:
  \<open>True\<close> when the solution is discarded.
\<close>

definition difficultyDiscards ::
  "(string \<Rightarrow> string \<Rightarrow> bool) \<Rightarrow> WorkerCtx \<Rightarrow> string \<Rightarrow> Challenge \<Rightarrow> bool" where
  "difficultyDiscards md ctx hash validationChallenge =
     (difficulty validationChallenge \<noteq> difficulty (challenge ctx)
      \<and> \<not> md hash (difficulty validationChallenge))"

text \<open>The statements of that discard, before its \<open>continue\<close>.\<close>

definition discardForDifficulty :: "WorkerCtx \<Rightarrow> Orchestrator \<Rightarrow> Orchestrator" where
  "discardForDifficulty ctx s =
     unmarkSolved (bech32 (addr ctx)) (challengeId ctx) (releaseLocks ctx s)"

text \<open>
  The scan of the hashes of a batch, from the current position on: \<open>hashes\<close> and \<open>nonces\<close>
  are what is left of \<open>hashes\<close> and \<open>batchData\<close>. Reading \<open>batchData[i]\<close> past its end
  raises a \<open>TypeError\<close> on destructuring, which the \<open>catch\<close> block receives.
\<close>

fun scanHashes ::
  "(string \<Rightarrow> string \<Rightarrow> bool) \<Rightarrow> WorkerCtx \<Rightarrow> WorkerLocal \<Rightarrow> string list \<Rightarrow> nat list \<Rightarrow> Orchestrator
     \<Rightarrow> suspended \<times> Orchestrator" where
  "scanHashes md ctx loc [] nonces s = endOfIteration ctx loc s"
| "scanHashes md ctx loc (hash # hashes) [] s =
     catchBatchError loc ''Cannot destructure property of undefined'' s"
| "scanHashes md ctx loc (hash # hashes) (nonce # nonces) s =
     (if md hash (difficulty (challenge ctx)) then
        if hash \<in> submittedSolutions s then scanHashes md ctx loc hashes nonces s
        else if submissionKey ctx \<in> submittingAddresses s then (Returned, s)
        else
          let s1 = claimSubmission ctx hash s
          in if currentChallengeId s1 \<noteq> Some (challengeId ctx) then (Returned, releaseLocks ctx s1)
             else
               (case currentChallenge s1 of
                  None \<Rightarrow> (AwaitSubmit loc hashes nonces nonce hash, s1)
                | Some validationChallenge \<Rightarrow>
                    if dataChanged (challenge ctx) validationChallenge then
                      (AwaitServerHash loc hashes nonces nonce hash validationChallenge, s1)
                    else if difficultyDiscards md ctx hash validationChallenge then
                      scanHashes md ctx loc hashes nonces (discardForDifficulty ctx s1)
                    else (AwaitSubmit loc hashes nonces nonce hash, s1))
      else scanHashes md ctx loc hashes nonces s)"

text \<open>Resuming after \<open>hashBatchAsync\<close> of a batch.\<close>

definition hashBatchDone ::
  "(string \<Rightarrow> string \<Rightarrow> bool) \<Rightarrow> WorkerCtx \<Rightarrow> WorkerLocal \<Rightarrow> nat list \<Rightarrow> hash_result \<Rightarrow> Orchestrator
     \<Rightarrow> suspended \<times> Orchestrator" where
  "hashBatchDone md ctx loc batchData result s =
     (case result of
        HashFailed msg \<Rightarrow> catchBatchError loc msg s
      | Hashes hashes \<Rightarrow>
          if currentChallengeId s \<noteq> Some (challengeId ctx) then (Returned, s)
          else
            let s1 = s\<lparr>totalHashesComputed := totalHashesComputed s + length hashes\<rparr>;
                loc1 = loc\<lparr>hashCount := hashCount loc + length hashes\<rparr>
            in if hashCount loc1 = length hashes \<and> hashes = [] then
                 catchBatchError loc1 ''Cannot read properties of undefined'' s1
               else scanHashes md ctx loc1 hashes batchData s1)"

text \<open>
  Resuming after the re-hash under \<open>validationChallenge\<close>: the server-side hash is checked,
  then the difficulty, and the worker goes on to submit or back to the scan.
\<close>

definition serverHashDone ::
  "(string \<Rightarrow> string \<Rightarrow> bool) \<Rightarrow> WorkerCtx \<Rightarrow> WorkerLocal \<Rightarrow> string list \<Rightarrow> nat list \<Rightarrow> nat \<Rightarrow> string
     \<Rightarrow> Challenge \<Rightarrow> hash_result \<Rightarrow> Orchestrator \<Rightarrow> suspended \<times> Orchestrator" where
  "serverHashDone md ctx loc hashes nonces nonce hash validationChallenge result s =
     (case result of
        HashFailed msg \<Rightarrow> catchBatchError loc msg s
      | Hashes [] \<Rightarrow> catchBatchError loc ''Cannot read properties of undefined'' s
      | Hashes (serverHashHex # rest) \<Rightarrow>
          if \<not> md serverHashHex (difficulty validationChallenge) then
            scanHashes md ctx loc hashes nonces (releaseLocks ctx s)
          else if difficultyDiscards md ctx hash validationChallenge then
            scanHashes md ctx loc hashes nonces (discardForDifficulty ctx s)
          else (AwaitSubmit loc hashes nonces nonce hash, s))"

text \<open>
  Resuming after \<open>submitSolution\<close>: the rest of the \<open>try\<close>, the \<open>catch\<close> and the
  \<open>finally\<close> block around the call.
\<close>

definition submissionDone ::
  "(string \<Rightarrow> string \<Rightarrow> bool) \<Rightarrow> WorkerCtx \<Rightarrow> WorkerLocal \<Rightarrow> string list \<Rightarrow> nat list \<Rightarrow> string
     \<Rightarrow> (JsError + unit) \<Rightarrow> Orchestrator \<Rightarrow> suspended \<times> Orchestrator" where
  "submissionDone md ctx loc hashes nonces hash outcome s =
     (case outcome of
        Inr u \<Rightarrow>
          (let s1 = markSolved (bech32 (addr ctx)) (challengeId ctx) s;
               s2 = s1\<lparr>submittingAddresses := submittingAddresses s1 - {submissionKey ctx},
                       pausedAddresses := pausedAddresses s1 - {submissionKey ctx},
                       addressSubmissionFailures := (addressSubmissionFailures s1)(submissionKey ctx := None)\<rparr>
           in (Returned, setStatus (workerId ctx) Completed s2))
      | Inl error \<Rightarrow>
          (let currentFailures = (case addressSubmissionFailures s (submissionKey ctx) of
                                    None \<Rightarrow> 0 | Some n \<Rightarrow> n);
               s1 = s\<lparr>addressSubmissionFailures :=
                        (addressSubmissionFailures s)(submissionKey ctx \<mapsto> currentFailures + 1),
                      submittingAddresses := submittingAddresses s - {submissionKey ctx},
                      pausedAddresses := pausedAddresses s - {submissionKey ctx},
                      submittedSolutions := submittedSolutions s - {hash},
                      stoppedWorkers := {}\<rparr>
           in scanHashes md ctx loc hashes nonces s1))"

text \<open>
  One resumption of a suspended worker. \<open>hashValue\<close> is what the awaited hash call
  delivers and \<open>submitEnv\<close> what the awaited calls of \<open>submitSolution\<close> deliver; a sleep
  delivers nothing. A worker that has ended stays as it is. The statements of
  \<open>submitSolution\<close> that write to the orchestrator come after its POST has answered (and,
  when it registers the address and retries, after the registration and after the second
  POST), so \<open>submitSolution\<close> is run as a whole when the worker is resumed, with no other
  task between its own \<open>await\<close>s.
\<close>

record Resumption =
  hashValue :: hash_result
  submitEnv :: SubmitEnv

definition resumeWorker ::
  "(string \<Rightarrow> string \<Rightarrow> bool) \<Rightarrow> WorkerCtx \<Rightarrow> Resumption \<Rightarrow> suspended \<Rightarrow> Orchestrator
     \<Rightarrow> suspended \<times> Orchestrator" where
  "resumeWorker md ctx r susp s =
     (case susp of
        Returned \<Rightarrow> (Returned, s)
      | Finished \<Rightarrow> (Finished, s)
      | AwaitPauseSleep loc \<Rightarrow> loopHead ctx loc s
      | AwaitHashBatch loc batchData \<Rightarrow> hashBatchDone md ctx loc batchData (hashValue r) s
      | AwaitServerHash loc hashes nonces nonce hash validationChallenge \<Rightarrow>
          serverHashDone md ctx loc hashes nonces nonce hash validationChallenge (hashValue r) s
      | AwaitSubmit loc hashes nonces nonce hash \<Rightarrow>
          (case submitSolution (submitEnv r) (addr ctx) (challengeId ctx) (nonceHex nonce) hash
                  (devFeeWorker ctx) False s of
             (outcome, s1) \<Rightarrow> submissionDone md ctx loc hashes nonces hash outcome s1)
      | AwaitBackoff loc skipProgress \<Rightarrow>
          if skipProgress then loopHead ctx loc s else endOfIteration ctx loc s)"

text \<open>
  A run of a worker: at each \<open>await\<close> the other tasks change the orchestrator by
  \<open>interference\<close> (any function), then the worker is resumed. The result lists the
  suspension points the worker goes through, in order.
\<close>

fun runWorker ::
  "(string \<Rightarrow> string \<Rightarrow> bool) \<Rightarrow> WorkerCtx \<Rightarrow> ((Orchestrator \<Rightarrow> Orchestrator) \<times> Resumption) list
     \<Rightarrow> suspended \<Rightarrow> Orchestrator \<Rightarrow> (suspended \<times> Orchestrator) list" where
  "runWorker md ctx [] susp s = []"
| "runWorker md ctx ((interference, r) # events) susp s =
     (case resumeWorker md ctx r susp (interference s) of
        (susp1, s1) \<Rightarrow> (susp1, s1) # runWorker md ctx events susp1 s1)"



text \<open>
  \<open>mineForAddress\<close> from its call: the entry, the first pass through the loop head, and
  the run that follows. The first element of the result is the first suspension point.
\<close>

definition mineForAddress ::
  "(string \<Rightarrow> string \<Rightarrow> bool) \<Rightarrow> DerivedAddress \<Rightarrow> bool \<Rightarrow> nat \<Rightarrow> nat
     \<Rightarrow> ((Orchestrator \<Rightarrow> Orchestrator) \<times> Resumption) list \<Rightarrow> Orchestrator
     \<Rightarrow> (suspended \<times> Orchestrator) list" where
  "mineForAddress md a devFee w maxFail events s =
     (case mineForAddressEntry a devFee w maxFail None None s of
        (None, s1) \<Rightarrow> [(Returned, s1)]
      | (Some (ctx, loc), s1) \<Rightarrow>
          (case loopHead ctx loc s1 of
             (susp, s2) \<Rightarrow> (susp, s2) # runWorker md ctx events susp s2))"

text \<open>
  The position of a suspended worker in its nonce range, for the proofs about the nonces:
  \<open>curOf\<close> is the value of \<open>currentNonce\<close> at a suspension point, and
  \<open>followsFrom ctx c susp\<close> says that \<open>susp\<close> is a suspension point that a worker with
  \<open>currentNonce = c\<close> can reach without another suspension in between: either it still has
  that \<open>currentNonce\<close>, or it has just built the batch of the nonces from \<open>c\<close> up to its new
  \<open>currentNonce\<close>, which is at most \<open>nonceEnd\<close>.
\<close>

definition curOf :: "suspended \<Rightarrow> nat option" where
  "curOf susp =
     (case susp of
        Returned \<Rightarrow> None
      | Finished \<Rightarrow> None
      | AwaitPauseSleep loc \<Rightarrow> Some (currentNonce loc)
      | AwaitHashBatch loc batchData \<Rightarrow> Some (currentNonce loc)
      | AwaitServerHash loc hashes nonces nonce hash vc \<Rightarrow> Some (currentNonce loc)
      | AwaitSubmit loc hashes nonces nonce hash \<Rightarrow> Some (currentNonce loc)
      | AwaitBackoff loc skipProgress \<Rightarrow> Some (currentNonce loc))"

definition followsFrom :: "WorkerCtx \<Rightarrow> nat \<Rightarrow> suspended \<Rightarrow> bool" where
  "followsFrom ctx c susp =
     (case susp of
        AwaitHashBatch loc batchData \<Rightarrow>
          batchData = [c ..< currentNonce loc] \<and> c \<le> currentNonce loc
            \<and> currentNonce loc \<le> nonceEnd ctx
      | _ \<Rightarrow> (case curOf susp of None \<Rightarrow> True | Some c' \<Rightarrow> c' = c))"

text \<open>
  A discard that leaves no trace but the released locks: in the orchestrator \<open>after\<close>
  it the submission lock and the pause of the key are released, and the failure counters,
  the error log, the receipts and the set of submitted hashes are as \<open>before\<close> it.
\<close>

definition silentlyReleased :: "WorkerCtx \<Rightarrow> Orchestrator \<Rightarrow> Orchestrator \<Rightarrow> bool" where
  "silentlyReleased ctx before after =
     (submissionKey ctx \<notin> submittingAddresses after
      \<and> submissionKey ctx \<notin> pausedAddresses after
      \<and> addressSubmissionFailures after = addressSubmissionFailures before
      \<and> errors after = errors before
      \<and> receipts after = receipts before
      \<and> submittedSolutions after = submittedSolutions before)"

section \<open>Starting, stopping and polling (\<open>start\<close>, \<open>stop\<close>, \<open>pollAndMine\<close>)\<close>

text \<open>\<open>loadSubmittedSolutions\<close>: the loop body for one receipt, and the function.\<close>

definition loadReceipt :: "ReceiptEntry \<Rightarrow> Orchestrator \<Rightarrow> Orchestrator" where
  "loadReceipt r s =
     markSolved (rAddress r) (rChallengeId r)
       (if rHash r \<noteq> [] then s\<lparr>submittedSolutions := insert (rHash r) (submittedSolutions s)\<rparr>
        else s)"

definition loadSubmittedSolutions :: "Orchestrator \<Rightarrow> Orchestrator" where
  "loadSubmittedSolutions s =
     (let allReceipts = receipts s;
          userReceipts = filter (\<lambda>r. \<not> isDevFee r) allReceipts;
          devFeeReceipts = filter isDevFee allReceipts;
          s1 = s\<lparr>userSolutionsCount := length userReceipts\<rparr>;
          s2 = (if totalDevFeeSolutions (cache (devFeeManager s1)) \<noteq> length devFeeReceipts
                then s1\<lparr>devFeeManager := syncWithReceipts (length devFeeReceipts) (devFeeManager s1)\<rparr>
                else s1)
      in fold loadReceipt devFeeReceipts (fold loadReceipt userReceipts s2))"

text \<open>
  \<open>ensureAddressesRegistered\<close>: \<open>outcome\<close> gives, for the index of an address, what its
  registration does (\<open>None\<close> when it succeeds).
\<close>

definition registerOne :: "(int \<Rightarrow> JsError option) \<Rightarrow> DerivedAddress \<Rightarrow> Orchestrator \<Rightarrow> Orchestrator" where
  "registerOne outcome a s =
     (case registerAddress (outcome (index a)) a (emit ''registration_progress'' s) of
        (Inr u, s1) \<Rightarrow> (emit ''registration_progress'' s1)\<lparr>calls := calls s1 @ [Sleep 1500]\<rparr>
      | (Inl e, s1) \<Rightarrow> emit ''registration_progress'' s1)"

definition ensureAddressesRegistered :: "(int \<Rightarrow> JsError option) \<Rightarrow> Orchestrator \<Rightarrow> Orchestrator" where
  "ensureAddressesRegistered outcome s =
     fold (registerOne outcome) (filter (\<lambda>a. \<not> registered a) (addresses s)) s"

text \<open>
  The outcomes of the awaited calls of \<open>start\<close>: loading the wallet, the registrations,
  the dev-fee prefetch, and the clock.
\<close>

record StartEnv =
  walletResult :: "JsError + DerivedAddress list"
  registrations :: "int \<Rightarrow> JsError option"
  prefetchResponse :: prefetch_response
  startNow :: nat

definition start :: "StartEnv \<Rightarrow> string \<Rightarrow> Orchestrator \<Rightarrow> (JsError + unit) \<times> Orchestrator" where
  "start env password s =
     (if isRunning s then (Inr (), s)
      else
        let s0 = s\<lparr>walletManager := True, calls := calls s @ [LoadWallet]\<rparr>
        in case walletResult env of
             Inl e \<Rightarrow> (Inl e, s0)
           | Inr loaded \<Rightarrow>
               let s1 = s0\<lparr>addresses := loaded\<rparr>;
                   s2 = loadSubmittedSolutions s1;
                   s3 = ensureAddressesRegistered (registrations env) s2;
                   s4 = (if hasValidAddressPool (devFeeManager s3) then s3
                         else s3\<lparr>devFeeManager :=
                                   snd (prefetchAddressPool (prefetchResponse env) (startNow env)
                                          (devFeeManager s3))\<rparr>);
                   s5 = s4\<lparr>isRunning := True, startTime := Some (startNow env), solutionsFound := 0\<rparr>;
                   s6 = s5\<lparr>hourlyRestartTimer := True, watchdogTimer := True,
                           calls := calls s5 @ [PollLoop, ScheduleHourlyRestart, StartWatchdog]\<rparr>
               in (Inr (), emit ''status'' s6))"

definition stop :: "Orchestrator \<Rightarrow> Orchestrator" where
  "stop s =
     emit ''status''
       (s\<lparr>isRunning := False, isMining := False, pollTimer := False,
          hourlyRestartTimer := False, watchdogTimer := False\<rparr>)"

text \<open>The answer of \<open>GET /challenge\<close>.\<close>

datatype challenge_code = Before | Active | After

record ChallengeResponse =
  respCode :: challenge_code
  respChallenge :: "Challenge option"
  starts_at :: "string option"

fun findIndex :: "('a \<Rightarrow> bool) \<Rightarrow> 'a list \<Rightarrow> nat \<Rightarrow> nat option" where
  "findIndex P [] i = None"
| "findIndex P (x # xs) i = (if P x then Some i else findIndex P xs (i + 1))"

text \<open>\<open>loadChallengeState\<close>.\<close>

definition loadChallengeState :: "string \<Rightarrow> Orchestrator \<Rightarrow> Orchestrator" where
  "loadChallengeState cid s =
     (let challengeReceipts = filter (\<lambda>r. rChallengeId r = cid) (receipts s);
          userReceipts = filter (\<lambda>r. \<not> isDevFee r) challengeReceipts;
          found = concat (map (\<lambda>r. case findIndex (\<lambda>a. bech32 a = rAddress r) (addresses s) 0 of
                                       None \<Rightarrow> [] | Some i \<Rightarrow> [int i]) userReceipts)
      in emit ''stats''
           (s\<lparr>solutionsFound := length challengeReceipts,
              addressesProcessedCurrentChallenge := set found\<rparr>))"

text \<open>
  The points of \<open>pollAndMine\<close> after its \<open>fetchChallenge\<close>: the three \<open>await\<close>s of a
  challenge transition, the call of \<open>startMining\<close> that ends a transition, and the two
  other ways to end.
\<close>

datatype poll_point =
    AwaitKillWorkers
    \<comment> \<open>\<open>await hashEngine.killWorkers()\<close>\<close>
  | AwaitQuiescence
    \<comment> \<open>\<open>await this.sleep(1000)\<close> after the state reset\<close>
  | AwaitRom
    \<comment> \<open>\<open>await hashEngine.initRom(noPreMine)\<close> and the wait for the ROM\<close>
  | CallsStartMining
    \<comment> \<open>the new challenge is adopted and \<open>startMining\<close> is called; the state is the
        one that \<open>startMining\<close> starts in\<close>
  | PollReturned
  | PollThrew JsError

text \<open>
  What the awaited calls of one \<open>pollAndMine\<close> deliver, and what the other tasks do to the
  orchestrator during each \<open>await\<close> of a transition. A failure of \<open>killWorkers\<close> is caught
  and only logged, so it is not distinguished.
\<close>

record PollEnv =
  fetched :: "JsError + ChallengeResponse"
  duringKill :: "Orchestrator \<Rightarrow> Orchestrator"
  duringQuiescence :: "Orchestrator \<Rightarrow> Orchestrator"
  initRomError :: "JsError option"
  duringRom :: "Orchestrator \<Rightarrow> Orchestrator"
  romReadyAfterWait :: bool

text \<open>Lines 583 to 589: stop mining and ask the hash engine to kill its workers.\<close>

definition stopForTransition :: "Orchestrator \<Rightarrow> Orchestrator" where
  "stopForTransition s = s\<lparr>isMining := False, calls := calls s @ [KillWorkers]\<rparr>"

text \<open>Lines 595 to 606: the state reset, up to the sleep.\<close>

definition resetForTransition :: "Orchestrator \<Rightarrow> Orchestrator" where
  "resetForTransition s =
     s\<lparr>workerStats := [], addressesProcessedCurrentChallenge := {}, pausedAddresses := {},
       submittingAddresses := {}, calls := calls s @ [Sleep 1000]\<rparr>"

text \<open>
  Lines 635 to 653: adopt the new challenge and call \<open>startMining\<close>, whose own
  statements are modelled in the next section.
\<close>

definition adoptChallenge :: "Challenge \<Rightarrow> Orchestrator \<Rightarrow> Orchestrator" where
  "adoptChallenge ch s =
     (let s1 = s\<lparr>currentChallengeId := Some (challenge_id ch), currentChallenge := Some ch\<rparr>;
          s2 = emit ''status'' (loadChallengeState (challenge_id ch) s1)
      in s2\<lparr>calls := calls s2 @ [StartMining]\<rparr>)"

text \<open>
  From the ROM check to the end of a transition, on the orchestrator as it is after the
  preceding \<open>await\<close>s; \<open>noPreMineChanged\<close> was computed before them.
\<close>

definition finishTransition ::
  "PollEnv \<Rightarrow> Challenge \<Rightarrow> bool \<Rightarrow> Orchestrator \<Rightarrow> (poll_point \<times> Orchestrator) list" where
  "finishTransition env ch noPreMineChanged s =
     (if noPreMineChanged \<or> \<not> romReady s then
        (let s1 = s\<lparr>calls := calls s @ [InitRom (no_pre_mine ch)]\<rparr>
         in case initRomError env of
              Some e \<Rightarrow> [(AwaitRom, s1), (PollThrew e, duringRom env s1)]
            | None \<Rightarrow>
                let s2 = (duringRom env s1)\<lparr>romReady := romReadyAfterWait env\<rparr>
                in if \<not> romReady s2 then
                     [(AwaitRom, s1), (PollThrew (plainError ''ROM initialization timeout''), s2)]
                   else [(AwaitRom, s1), (CallsStartMining, adoptChallenge ch s2)])
      else [(CallsStartMining, adoptChallenge ch s)])"

definition pollAndMine :: "PollEnv \<Rightarrow> Orchestrator \<Rightarrow> (poll_point \<times> Orchestrator) list" where
  "pollAndMine env s =
     (case fetched env of
        Inl e \<Rightarrow> [(PollThrew e, s)]
      | Inr response \<Rightarrow>
          (case respCode response of
             Before \<Rightarrow> [(PollReturned, s)]
           | After \<Rightarrow> [(PollReturned, stop s)]
           | Active \<Rightarrow>
               (case respChallenge response of
                  None \<Rightarrow> [(PollReturned, s)]
                | Some ch \<Rightarrow>
                    if Some (challenge_id ch) \<noteq> currentChallengeId s then
                      (let noPreMineChanged =
                             (case currentChallenge s of
                                None \<Rightarrow> False
                              | Some cur \<Rightarrow> no_pre_mine cur \<noteq> no_pre_mine ch)
                       in case (currentChallengeId s, currentChallenge s) of
                            (Some (c # cs), Some cur) \<Rightarrow>
                              (let s1 = stopForTransition s;
                                   s2 = resetForTransition (duringKill env s1)
                               in (AwaitKillWorkers, s1) # (AwaitQuiescence, s2)
                                    # finishTransition env ch noPreMineChanged (duringQuiescence env s2))
                          | _ \<Rightarrow> finishTransition env ch noPreMineChanged s)
                    else [(PollReturned, s\<lparr>currentChallenge := Some ch\<rparr>)])))"

section \<open>When the dev fee is due (\<open>shouldMineDevFeeNow\<close>)\<close>

text \<open>
  \<open>receiptsLogger.getRecentReceipts\<close> is a method of the receipts logger, whose code is
  outside this development: it is the parameter \<open>getRecentReceipts\<close>, applied to the count
  and to the receipts the log holds. \<open>ratio - 1\<close> is computed on integers, as \<open>ratio\<close> may
  be \<open>0\<close>.
\<close>

definition shouldMineDevFeeNow ::
  "(nat \<Rightarrow> ReceiptEntry list \<Rightarrow> ReceiptEntry list) \<Rightarrow> Orchestrator \<Rightarrow> bool" where
  "shouldMineDevFeeNow getRecentReceipts s =
     (if \<not> isEnabled (devFeeManager s) \<or> \<not> hasValidAddressPool (devFeeManager s) then False
      else if isDevFeeMining s then False
      else
        let ratio = getRatio (devFeeManager s);
            userSolutionsNeeded = int ratio - 1;
            lastReceipts = getRecentReceipts ratio (receipts s);
            hasDevFeeInLastN = list_ex isDevFee lastReceipts
        in \<not> hasDevFeeInLastN \<and> int (length lastReceipts) \<ge> userSolutionsNeeded)"

section \<open>The mining loop of \<open>startMining\<close>, up to the launch of a batch\<close>

text \<open>
  \<open>pollAndMine\<close> calls \<open>startMining\<close> without awaiting it, so the statements of
  \<open>startMining\<close> up to its first \<open>await\<close> run at once, in the state that the last point
  of \<open>pollAndMine\<close> holds. They are modelled here: the entry, one pass through the
  \<open>while\<close> loop up to the launch of the workers of a batch, and the launch itself, which
  runs every worker up to its first suspension. The \<open>await\<close> of
  \<open>getDevFeeAddressForBatch\<close> inside a pass waits for no timer and no input, so the pass is
  one function. What follows the launch (waiting for the workers, resetting
  \<open>isDevFeeMining\<close>, advancing the pointer) is not modelled.
\<close>

text \<open>
  \<open>Math.max(1, Math.floor(availableWorkers / minWorkersPerAddress))\<close>, which is
  \<open>Infinity\<close> or \<open>NaN\<close> when the divisor is \<open>0\<close>, and \<open>n < batchSize\<close> for it.
\<close>

datatype js_count = Count nat | Infinity | NaN

definition batchSizeFor :: "nat \<Rightarrow> nat \<Rightarrow> js_count" where
  "batchSizeFor availableWorkers minWorkersPerAddress =
     (if minWorkersPerAddress = 0 then (if availableWorkers = 0 then NaN else Infinity)
      else Count (max 1 (availableWorkers div minWorkersPerAddress)))"

definition belowCount :: "nat \<Rightarrow> js_count \<Rightarrow> bool" where
  "belowCount n c = (case c of Count k \<Rightarrow> n < k | Infinity \<Rightarrow> True | NaN \<Rightarrow> False)"

text \<open>
  \<open>startMining\<close> up to its loop; \<open>None\<close> is an early \<open>return\<close>. The loop runs with the
  constants that the entry has captured: \<open>currentChallengeId\<close>, \<open>addressesToMine\<close> and
  \<open>availableWorkers\<close>.
\<close>

definition startMiningEntry ::
  "nat \<Rightarrow> Orchestrator \<Rightarrow> (string \<times> DerivedAddress list \<times> nat) option \<times> Orchestrator" where
  "startMiningEntry clock s =
     (case (isMining s, currentChallenge s, currentChallengeId s) of
        (False, Some ch, Some (c # cs)) \<Rightarrow>
          (let s1 = emit ''status'' (s\<lparr>isMining := True\<rparr>);
               s2 = s1\<lparr>totalHashesComputed := 0, lastHashRateUpdate := clock\<rparr>;
               registeredAddresses = filter registered (addresses s2);
               addressesToMine = filter (\<lambda>a. \<not> isSolved s2 (bech32 a) (c # cs)) registeredAddresses
           in if addressesToMine = [] then (None, s2\<lparr>isMining := False\<rparr>)
              else (Some (c # cs, addressesToMine, workerThreads s2), s2))
      | _ \<Rightarrow> (None, s))"

text \<open>\<open>getDevFeeAddressForBatch\<close>; \<open>None\<close> is its \<open>null\<close>.\<close>

definition getDevFeeAddressForBatch :: "Orchestrator \<Rightarrow> DerivedAddress option \<times> Orchestrator" where
  "getDevFeeAddressForBatch s =
     (case (currentChallengeId s, currentChallenge s) of
        (Some (c # cs), Some ch) \<Rightarrow>
          (case getDevFeeAddress (c # cs) (devFeeManager s) of
             (Inl e, m) \<Rightarrow> (None, s\<lparr>devFeeManager := m\<rparr>)
           | (Inr devFeeAddress, m) \<Rightarrow>
               let s1 = s\<lparr>devFeeManager := m\<rparr>
               in if devFeeAddress = []
                     \<or> (\<not> startsWith devFeeAddress ''addr1'' \<and> \<not> startsWith devFeeAddress ''tnight1'')
                    then (None, s1)
                  else if isSolved s1 devFeeAddress (c # cs) then (None, s1)
                  else (Some \<lparr>index = - 1, bech32 = devFeeAddress, publicKeyHex = [],
                               registered = True\<rparr>, s1))
      | _ \<Rightarrow> (None, s))"

text \<open>
  The \<open>for\<close> loop that fills the batch with user addresses, from index \<open>i\<close> on; it
  returns the batch and \<open>checked\<close>.
\<close>

function collectBatch ::
  "Orchestrator \<Rightarrow> string \<Rightarrow> DerivedAddress list \<Rightarrow> js_count \<Rightarrow> nat \<Rightarrow> DerivedAddress list \<Rightarrow> nat
     \<Rightarrow> DerivedAddress list \<times> nat" where
  "collectBatch s cid addressesToMine batchSize i batchAddresses checked =
     (if i < length addressesToMine \<and> belowCount (length batchAddresses) batchSize then
        collectBatch s cid addressesToMine batchSize (i + 1)
          (if \<not> isSolved s (bech32 (addressesToMine ! i)) cid
           then batchAddresses @ [addressesToMine ! i] else batchAddresses)
          (checked + 1)
      else (batchAddresses, checked))"
  by pat_completeness auto
termination
  by (relation "measure (\<lambda>(s, cid, as, b, i, ba, ch). length as - i)") auto

declare collectBatch.simps [simp del]

text \<open>How one pass through the \<open>while\<close> loop of \<open>startMining\<close> ends.\<close>

datatype mining_pass =
    LoopLeft
    \<comment> \<open>the loop condition is false\<close>
  | AllSolved
    \<comment> \<open>no unsolved address is left: \<open>isMining = false; return\<close>\<close>
  | PassThrew
    \<comment> \<open>\<open>this.currentChallenge!.difficulty\<close> on \<open>null\<close>\<close>
  | LoopAgain nat
    \<comment> \<open>a \<open>continue\<close>, with the new \<open>currentAddressPointer\<close>\<close>
  | LaunchBatch "WorkerGroup list" nat
    \<comment> \<open>the groups whose workers are launched next, and \<open>checked\<close>\<close>

definition startMiningPass ::
  "(nat \<Rightarrow> ReceiptEntry list \<Rightarrow> ReceiptEntry list) \<Rightarrow> string \<Rightarrow> DerivedAddress list \<Rightarrow> nat
     \<Rightarrow> nat \<Rightarrow> Orchestrator \<Rightarrow> mining_pass \<times> Orchestrator" where
  "startMiningPass getRecentReceipts cid addressesToMine availableWorkers currentAddressPointer s =
     (if isRunning s \<and> isMining s \<and> currentChallengeId s = Some cid then
        if filter (\<lambda>a. \<not> isSolved s (bech32 a) cid) addressesToMine = [] then
          (AllSolved, s\<lparr>isMining := False\<rparr>)
        else
          (case currentChallenge s of
             None \<Rightarrow> (PassThrew, s)
           | Some ch \<Rightarrow>
               let batchSize = batchSizeFor availableWorkers
                                 (getMinWorkersPerAddress s availableWorkers (difficulty ch));
                   (devFeeBatch, s1) =
                      (if shouldMineDevFeeNow getRecentReceipts s then
                         (case getDevFeeAddressForBatch s of
                            (Some devFeeAddr, t) \<Rightarrow> ([devFeeAddr], t\<lparr>isDevFeeMining := True\<rparr>)
                          | (None, t) \<Rightarrow> ([], t))
                       else ([], s));
                   (batchAddresses, checked) =
                      collectBatch s1 cid addressesToMine batchSize currentAddressPointer devFeeBatch 0
               in if belowCount (length batchAddresses) batchSize
                     \<and> currentAddressPointer + checked \<ge> length addressesToMine
                    then (LoopAgain 0, s1)
                  else if batchAddresses = [] then (LoopAgain 0, s1)
                  else
                    (case currentChallenge s1 of
                       None \<Rightarrow> (PassThrew, s1)
                     | Some ch1 \<Rightarrow>
                         (LaunchBatch
                            (calculateWorkerGroups s1 batchAddresses availableWorkers (difficulty ch1))
                            checked,
                          s1\<lparr>stoppedWorkers := {}\<rparr>)))
      else (LoopLeft, s))"

text \<open>
  The launch of one worker (\<open>mineForAddress\<close> up to its first suspension, with
  \<open>MAX_SUBMISSION_FAILURES = 1\<close>), of the workers of a group, and of the groups of a batch.
  A group whose address is \<open>undefined\<close> launches nothing: its task rejects with a
  \<open>TypeError\<close> when it reads \<open>group.address.index\<close>.
\<close>

definition launchWorker ::
  "DerivedAddress \<Rightarrow> bool \<Rightarrow> nat \<Rightarrow> Orchestrator \<Rightarrow> (nat \<times> suspended) \<times> Orchestrator" where
  "launchWorker a devFee w s =
     (case mineForAddressEntry a devFee w 1 None None s of
        (None, s1) \<Rightarrow> ((w, Returned), s1)
      | (Some (ctx, loc), s1) \<Rightarrow> (case loopHead ctx loc s1 of (susp, s2) \<Rightarrow> ((w, susp), s2)))"

fun launchWorkers ::
  "DerivedAddress \<Rightarrow> bool \<Rightarrow> nat list \<Rightarrow> Orchestrator \<Rightarrow> (nat \<times> suspended) list \<times> Orchestrator" where
  "launchWorkers a devFee [] s = ([], s)"
| "launchWorkers a devFee (w # ws) s =
     (case launchWorker a devFee w s of
        (l, s1) \<Rightarrow> (case launchWorkers a devFee ws s1 of (ls, s2) \<Rightarrow> (l # ls, s2)))"

definition launchGroup ::
  "string \<Rightarrow> WorkerGroup \<Rightarrow> Orchestrator \<Rightarrow> (nat \<times> suspended) list \<times> Orchestrator" where
  "launchGroup cid g s =
     (if \<not> isRunning s \<or> \<not> isMining s \<or> currentChallengeId s \<noteq> Some cid then ([], s)
      else case address g of
             None \<Rightarrow> ([], s)
           | Some a \<Rightarrow> launchWorkers a (index a = - 1) (workerIds g) s)"

fun launchGroups ::
  "string \<Rightarrow> WorkerGroup list \<Rightarrow> Orchestrator \<Rightarrow> (nat \<times> suspended) list \<times> Orchestrator" where
  "launchGroups cid [] s = ([], s)"
| "launchGroups cid (g # gs) s =
     (case launchGroup cid g s of
        (ls, s1) \<Rightarrow> (case launchGroups cid gs s1 of (ls', s2) \<Rightarrow> (ls @ ls', s2)))"

section \<open>Concrete inputs used by the witnesses\<close>

definition exampleAddresses :: "DerivedAddress list" where
  "exampleAddresses =
     [\<lparr>index = 0, bech32 = ''addr1a'', publicKeyHex = ''aa'', registered = True\<rparr>,
      \<lparr>index = 1, bech32 = ''addr1b'', publicKeyHex = ''bb'', registered = True\<rparr>,
      \<lparr>index = 2, bech32 = ''addr1c'', publicKeyHex = ''cc'', registered = True\<rparr>]"

definition autoConfig :: GroupingConfig where
  "autoConfig = \<lparr>workerGroupingMode = Auto, workersPerAddress = 5\<rparr>"


definition exampleDevFeeAddress :: "nat \<Rightarrow> DevFeeAddress" where
  "exampleDevFeeAddress i =
     \<lparr>dfAddress = ''addr1dev'' @ showNat i, dfAddressIndex = int i, fetchedAt = 0, usedCount = 0\<rparr>"

definition examplePool :: "DevFeeAddress list" where
  "examplePool = map exampleDevFeeAddress [0, 1, 2, 3, 4, 5, 6, 7, 8, 9]"

definition exampleCache :: DevFeeCache where
  "exampleCache =
     \<lparr>currentAddress = None, totalDevFeeSolutions = 3, lastFetchError = None,
      cacheClientId = Some ''desktop-00'', addressPool = Some examplePool,
      poolFetchedAt = Some 0, cacheEnabled = Some True,
      dfCurrentChallengeId = Some ''**D07C10'', solutionsThisChallenge = Some 12\<rparr>"

definition exampleDevFee :: DevFeeManager where
  "exampleDevFee =
     \<lparr>config = \<lparr>enabled = True, apiUrl = ''https://miner.ada.markets/api/get-dev-address'',
                ratio = 17, cacheFile = ''secure/.devfee_cache.json'', clientId = ''desktop-00''\<rparr>,
      cache = exampleCache\<rparr>"

text \<open>A manager the user has disabled, with a pool left in its cache file by an earlier session.\<close>

definition disabledDevFee :: DevFeeManager where
  "disabledDevFee =
     \<lparr>config = \<lparr>enabled = False, apiUrl = ''https://miner.ada.markets/api/get-dev-address'',
                ratio = 17, cacheFile = ''secure/.devfee_cache.json'', clientId = ''desktop-00''\<rparr>,
      cache = exampleCache\<lparr>addressPool := Some [exampleDevFeeAddress 0], cacheEnabled := Some False\<rparr>\<rparr>"

definition exampleApiAddresses :: "ApiAddress list" where
  "exampleApiAddresses =
     map (\<lambda>i. \<lparr>devAddress = Some (''tnight1q'' @ showNat i), devAddressIndex = int i,
                apiRegistered = True\<rparr>) [0, 1, 2, 3, 4, 5, 6, 7, 8, 9]"

text \<open>
  Modelled from the spec: \<open>matchesDifficulty\<close> of the difficulty module, which is not
  among the sources. Section 4.2: both arguments are fixed-length big-endian byte sequences
  (written in hexadecimal), and the hash is accepted iff \<open>(hash OR difficulty) == difficulty\<close>,
  that is, iff every bit set in the hash is set in the difficulty. It is used only to give
  the parameter \<open>md\<close> a value at concrete inputs.
\<close>

fun indexOf :: "char \<Rightarrow> string \<Rightarrow> nat \<Rightarrow> nat option" where
  "indexOf c [] i = None"
| "indexOf c (d # ds) i = (if c = d then Some i else indexOf c ds (i + 1))"

definition nibbleBits :: "char \<Rightarrow> bool list option" where
  "nibbleBits c =
     (case indexOf (toLowerChar c) ''0123456789abcdef'' 0 of
        None \<Rightarrow> None
      | Some v \<Rightarrow> Some [v div 8 mod 2 = 1, v div 4 mod 2 = 1, v div 2 mod 2 = 1, v mod 2 = 1])"

fun dominated :: "string \<Rightarrow> string \<Rightarrow> bool" where
  "dominated [] [] = True"
| "dominated (h # hs) (d # ds) =
     (case (nibbleBits h, nibbleBits d) of
        (Some hb, Some db) \<Rightarrow> list_all (\<lambda>(x, y). x \<longrightarrow> y) (zip hb db) \<and> dominated hs ds
      | _ \<Rightarrow> False)"
| "dominated hs ds = False"

definition matchesDifficultySpec :: "string \<Rightarrow> string \<Rightarrow> bool" where
  "matchesDifficultySpec hash diff = dominated hash diff"

definition exampleChallenge :: Challenge where
  "exampleChallenge =
     \<lparr>challenge_id = ''**D07C10'', difficulty = ''00ff'', latest_submission = ''ls0'',
      no_pre_mine = ''npm0'', no_pre_mine_hour = ''h0''\<rparr>"

text \<open>
  A running orchestrator that mines challenge \<open>**D07C10\<close> with two worker threads and a
  batch size of 2, before any worker has been started.
\<close>

definition exampleOrchestrator :: Orchestrator where
  "exampleOrchestrator =
     \<lparr>workerGroupingMode = Auto, workersPerAddress = 5,
      isRunning = True, currentChallengeId = Some ''**D07C10'', pollTimer = True,
      walletManager = True, isDevFeeMining = False, addresses = exampleAddresses,
      solutionsFound = 0, startTime = Some 0, isMining = True,
      currentChallenge = Some exampleChallenge, totalHashesComputed = 0,
      lastHashRateUpdate = 0, addressesProcessedCurrentChallenge = {},
      solutionTimestamps = [], workerThreads = 2, submittedSolutions = {},
      solvedAddressChallenges = Map.empty, userSolutionsCount = 0,
      submittingAddresses = {}, pausedAddresses = {}, workerStats = [],
      hourlyRestartTimer = True, watchdogTimer = True, stoppedWorkers = {},
      addressSubmissionFailures = Map.empty, customBatchSize = Some 2,
      receipts = [], errors = [], devFeeManager = exampleDevFee, romReady = True,
      emitted = [], calls = []\<rparr>"

definition exampleAddress :: DerivedAddress where
  "exampleAddress = \<lparr>index = 0, bech32 = ''addr1a'', publicKeyHex = ''aa'', registered = True\<rparr>"

definition exampleSubmitEnv :: SubmitEnv where
  "exampleSubmitEnv =
     \<lparr>post = Responded 200 ''OK'' None, registration = None,
      retryPost = Responded 200 ''OK'' None, timeNow = 5\<rparr>"

text \<open>A worker with id 0 on the example address whose nonce range is used up.\<close>

definition exampleCtx :: WorkerCtx where
  "exampleCtx =
     \<lparr>addr = exampleAddress, devFeeWorker = False, workerId = 0, maxFailures = 1,
      challengeId = ''**D07C10'', challenge = exampleChallenge, BATCH_SIZE = 2\<rparr>"



text \<open>
  Modelled from the spec: \<open>getRecentReceipts\<close> of the receipts logger, which is not among
  the sources. Section 4.4 lists \<open>recent_receipts(n)\<close> and section 4.5 reads its result as
  the last \<open>n\<close> persisted receipts. It is used only to give the parameter a value at concrete
  inputs.
\<close>

definition lastReceipts :: "nat \<Rightarrow> ReceiptEntry list \<Rightarrow> ReceiptEntry list" where
  "lastReceipts n rs = drop (length rs - n) rs"

definition userReceipt :: "nat \<Rightarrow> ReceiptEntry" where
  "userReceipt i =
     \<lparr>rAddress = ''addr1a'', rAddressIndex = 0, rChallengeId = ''**D07C0'' @ showNat i,
      rNonce = nonceHex i, rHash = ''00'' @ showNat i, rCryptoReceipt = None, isDevFee = False\<rparr>"

text \<open>The example orchestrator after sixteen user receipts and no dev-fee receipt.\<close>

definition orchestratorWith16 :: Orchestrator where
  "orchestratorWith16 =
     exampleOrchestrator\<lparr>receipts := map userReceipt [0, 1, 2, 3, 4, 5, 6, 7, 8, 9, 10, 11, 12, 13, 14, 15]\<rparr>"

text \<open>
  A poll that finds challenge \<open>**D07C11\<close> with the same \<open>no_pre_mine\<close> while worker 1 is
  still in \<open>stoppedWorkers\<close>, with no other task running during the transition.
\<close>

definition nextChallenge :: Challenge where
  "nextChallenge =
     \<lparr>challenge_id = ''**D07C11'', difficulty = ''00ff'', latest_submission = ''ls1'',
      no_pre_mine = ''npm0'', no_pre_mine_hour = ''h0''\<rparr>"

definition transitionEnv :: PollEnv where
  "transitionEnv =
     \<lparr>fetched = Inr \<lparr>respCode = Active, respChallenge = Some nextChallenge, starts_at = None\<rparr>,
      duringKill = id, duringQuiescence = id, initRomError = None, duringRom = id,
      romReadyAfterWait = True\<rparr>"

definition orchestratorWithStopped :: Orchestrator where
  "orchestratorWithStopped = exampleOrchestrator\<lparr>stoppedWorkers := {1}\<rparr>"

definition exampleStartEnv :: StartEnv where
  "exampleStartEnv =
     \<lparr>walletResult = Inr exampleAddresses, registrations = (\<lambda>i. None),
      prefetchResponse = PostReturned (Some exampleApiAddresses), startNow = 9\<rparr>"

text \<open>
  The poller has replaced the held challenge by one with a stricter difficulty (\<open>007f\<close>
  instead of \<open>00ff\<close>) and otherwise equal fields, and by one whose \<open>latest_submission\<close>
  differs as well.
\<close>

definition harderChallenge :: Challenge where
  "harderChallenge = exampleChallenge\<lparr>difficulty := ''007f''\<rparr>"

definition harderOrchestrator :: Orchestrator where
  "harderOrchestrator = exampleOrchestrator\<lparr>currentChallenge := Some harderChallenge\<rparr>"

definition movedChallenge :: Challenge where
  "movedChallenge = exampleChallenge\<lparr>latest_submission := ''ls1''\<rparr>"

definition movedOrchestrator :: Orchestrator where
  "movedOrchestrator = exampleOrchestrator\<lparr>currentChallenge := Some movedChallenge\<rparr>"

text \<open>A worker with id 0 after its first batch (nonces 0 and 1).\<close>

definition afterFirstBatch :: WorkerLocal where
  "afterFirstBatch = \<lparr>hashCount = 2, batchCounter = 1, currentNonce = 2\<rparr>"

text \<open>
  The service answers a submission with status 400 and the body
  \<open>{"error": "solution already exists"}\<close>.
\<close>

definition duplicateEnv :: SubmitEnv where
  "duplicateEnv =
     \<lparr>post = Responded 400 ''Bad Request''
               (Some \<lparr>rdMessage = None, rdError = Some ''solution already exists'',
                      crypto_receipt = None\<rparr>),
      registration = None, retryPost = Responded 200 ''OK'' None, timeNow = 5\<rparr>"

text \<open>
  Two workers on the same address. Worker 0 and worker 1 start and wait for their first
  batches; the poller then finds the difficulty of the same challenge changed to \<open>007f\<close>;
  worker 0 gets its hashes, finds \<open>0040\<close> (which meets both difficulties) and submits it
  successfully; only then worker 1 gets its hashes, among them \<open>0080\<close> (which meets the
  frozen difficulty \<open>00ff\<close> but not \<open>007f\<close>).
\<close>

definition raceStartA :: "(suspended \<times> Orchestrator) list" where
  "raceStartA = mineForAddress matchesDifficultySpec exampleAddress False 0 1 [] exampleOrchestrator"

definition raceStartB :: "(suspended \<times> Orchestrator) list" where
  "raceStartB =
     mineForAddress matchesDifficultySpec exampleAddress False 1 1 [] (snd (last raceStartA))"

definition racePoll :: "(poll_point \<times> Orchestrator) list" where
  "racePoll =
     pollAndMine
       \<lparr>fetched = Inr \<lparr>respCode = Active, respChallenge = Some harderChallenge, starts_at = None\<rparr>,
        duringKill = id, duringQuiescence = id, initRomError = None, duringRom = id,
        romReadyAfterWait = True\<rparr>
       (snd (last raceStartB))"

definition raceFoundA :: "suspended \<times> Orchestrator" where
  "raceFoundA =
     resumeWorker matchesDifficultySpec exampleCtx
       \<lparr>hashValue = Hashes [''0040'', ''ffff''], submitEnv = exampleSubmitEnv\<rparr>
       (fst (last raceStartA)) (snd (last racePoll))"

definition raceSubmittedA :: "suspended \<times> Orchestrator" where
  "raceSubmittedA =
     resumeWorker matchesDifficultySpec exampleCtx
       \<lparr>hashValue = Hashes [], submitEnv = exampleSubmitEnv\<rparr>
       (fst raceFoundA) (snd raceFoundA)"

definition raceFoundB :: "suspended \<times> Orchestrator" where
  "raceFoundB =
     resumeWorker matchesDifficultySpec (exampleCtx\<lparr>workerId := 1\<rparr>)
       \<lparr>hashValue = Hashes [''0080'', ''ffff''], submitEnv = exampleSubmitEnv\<rparr>
       (fst (last raceStartB)) (snd raceSubmittedA)"

text \<open>
  The orchestrator in which \<open>startMining\<close> reaches its loop after that transition: the
  state at the call of \<open>startMining\<close>, taken through the entry of \<open>startMining\<close>.
\<close>

definition afterAdoption :: Orchestrator where
  "afterAdoption =
     snd (startMiningEntry 0 (snd (last (pollAndMine transitionEnv orchestratorWithStopped))))"

section \<open>Worker grouping: proofs\<close>

lemma nth_opt_eq: "nth_opt xs i = (if i < length xs then Some (xs ! i) else None)"
  by (induction xs i rule: nth_opt.induct) auto

lemma groupLoop_length: "length (groupLoop a g b e i c) = g - i"
proof (induction a g b e i c rule: groupLoop.induct)
  case (1 a g b e i c)
  show ?case
  proof (cases "i < g")
    case True
    then show ?thesis
      using "1.IH" [OF True refl] by (subst groupLoop.simps) (simp add: Let_def)
  next
    case False
    then show ?thesis by (subst groupLoop.simps) simp
  qed
qed

lemma start_step:
  "(i + 1) * b + min (i + 1) e = i * b + min i e + (b + (if i < e then 1 else 0))"
  for i b e :: nat
  by (cases "i < e") (simp_all add: min_def algebra_simps)

lemma start_mono: "i \<le> j \<Longrightarrow> i * b + min i e \<le> j * b + min j (e::nat)"
  by (simp add: add_mono min.coboundedI1 min.coboundedI2 mult_le_mono1 min_le_iff_disj)

lemma groupLoop_nth:
  "c = i * b + min i e \<Longrightarrow> k < g - i \<Longrightarrow>
   groupLoop a g b e i c ! k =
     \<lparr>address = nth_opt a (i + k),
      workerIds = [(i + k) * b + min (i + k) e ..<
                   (i + k) * b + min (i + k) e + (b + (if i + k < e then 1 else 0))]\<rparr>"
proof (induction a g b e i c arbitrary: k rule: groupLoop.induct)
  case (1 a g b e i c)
  from "1.prems" have ig: "i < g" by simp
  have c': "c + (b + (if i < e then 1 else 0)) = (i + 1) * b + min (i + 1) e"
    unfolding start_step using "1.prems"(1) by simp
  show ?case
  proof (cases k)
    case 0
    then show ?thesis using ig "1.prems"(1) by (subst groupLoop.simps) (simp add: Let_def)
  next
    case (Suc k')
    with "1.prems" have k': "k' < g - (i + 1)" by simp
    have step: "groupLoop a g b e i c ! k =
        groupLoop a g b e (i + 1) (c + (b + (if i < e then 1 else 0))) ! k'"
      using ig Suc by (subst groupLoop.simps) (simp add: Let_def)
    have ik: "i + 1 + k' = i + k" using Suc by simp
    show ?thesis
      unfolding step "1.IH" [OF ig refl c' k'] ik ..
  qed
qed

lemma groupLoop_concat:
  "c = i * b + min i e \<Longrightarrow> i \<le> g \<Longrightarrow>
   concat (map workerIds (groupLoop a g b e i c)) = [c ..< g * b + min g e]"
proof (induction a g b e i c rule: groupLoop.induct)
  case (1 a g b e i c)
  show ?case
  proof (cases "i < g")
    case True
    let ?n = "b + (if i < e then 1 else 0)"
    have c': "c + ?n = (i + 1) * b + min (i + 1) e"
      unfolding start_step using "1.prems"(1) by simp
    from True have le: "i + 1 \<le> g" by simp
    have up: "c + ?n \<le> g * b + min g e"
      unfolding c' by (rule start_mono [OF le])
    have split: "[c ..< g * b + min g e] = [c ..< c + ?n] @ [c + ?n ..< g * b + min g e]"
      using up by (metis le_add1 upt_add_eq_append le_Suc_ex)
    have unf: "groupLoop a g b e i c =
        \<lparr>address = nth_opt a i, workerIds = [c ..< c + ?n]\<rparr>
          # groupLoop a g b e (i + 1) (c + ?n)"
      using True by (subst groupLoop.simps) (simp add: Let_def)
    show ?thesis
      unfolding unf split using "1.IH" [OF True refl c' le] by simp
  next
    case False
    with "1.prems" have "i = g" by simp
    then show ?thesis using "1.prems"(1) by (subst groupLoop.simps) simp
  qed
qed


text \<open>
  The fallback of \<open>calculateWorkerGroups\<close>, in any mode: when no group of the minimum size
  can be formed, one group holds all workers. In auto mode the minimum never exceeds the
  number of workers, so a non-empty address list never takes this branch.
\<close>

lemma calculateWorkerGroups_fallback:
  assumes "0 < getMinWorkersPerAddress cfg W d"
    and "min (W div getMinWorkersPerAddress cfg W d) (length addrs) = 0"
  shows "calculateWorkerGroups cfg addrs W d = [\<lparr>address = nth_opt addrs 0, workerIds = [0 ..< W]\<rparr>]"
  using assms unfolding calculateWorkerGroups_def Let_def by simp

text \<open>
  C3. For a non-empty address list and \<open>W \<ge> 1\<close> workers in auto mode, the minimum per
  address is \<open>m = W\<close> when \<open>W \<le> 4\<close> and \<open>max 3 (min 5 (W div 4))\<close> otherwise;
  \<open>calculateWorkerGroups\<close> forms \<open>g = min (W div m) (number of addresses)\<close> groups, or the
  single group of all workers when \<open>g = 0\<close>; group \<open>i\<close> is for the \<open>i\<close>-th address and holds
  \<open>W div g\<close> workers, one more if \<open>i < W mod g\<close>; and the worker ids of the groups, in
  group order, are \<open>0, ..., W - 1\<close>.
\<close>

theorem calculateWorkerGroups_auto:
  assumes "addrs \<noteq> []" and "1 \<le> W" and "workerGroupingMode cfg = Auto"
  shows "let m = (if W \<le> 4 then W else max 3 (min 5 (W div 4)));
             g = min (W div m) (length addrs);
             groups = calculateWorkerGroups cfg addrs W d
         in getMinWorkersPerAddress cfg W d = m
          \<and> (g = 0 \<longrightarrow> groups = [\<lparr>address = Some (addrs ! 0), workerIds = [0 ..< W]\<rparr>])
          \<and> (g \<noteq> 0 \<longrightarrow> length groups = g
               \<and> (\<forall>i < g. groups ! i =
                     \<lparr>address = Some (addrs ! i),
                      workerIds = [groupStart W g i ..< groupStart W g i + groupSize W g i]\<rparr>))
          \<and> concat (map workerIds groups) = [0 ..< W]"
proof -
  define m where "m = (if W \<le> 4 then W else max 3 (min 5 (W div 4)))"
  define g where "g = min (W div m) (length addrs)"
  have m: "getMinWorkersPerAddress cfg W d = m"
    using assms(3) by (simp add: getMinWorkersPerAddress_def m_def)
  have m_pos: "0 < m" and m_le: "m \<le> W"
    using assms(2) by (auto simp: m_def)
  have "1 \<le> W div m"
    using m_pos m_le by (simp add: Suc_leI div_greater_zero_iff)
  moreover have "1 \<le> length addrs"
    using assms(1) by (cases addrs) auto
  ultimately have g_pos: "0 < g" unfolding g_def by linarith
  have g_len: "g \<le> length addrs" by (simp add: g_def)
  have calc: "calculateWorkerGroups cfg addrs W d =
      groupLoop addrs g (W div g) (W mod g) 0 0"
    using m_pos g_pos
    unfolding calculateWorkerGroups_def Let_def m g_def [symmetric] by simp
  have len: "length (calculateWorkerGroups cfg addrs W d) = g"
    unfolding calc by (simp add: groupLoop_length)
  have nth: "calculateWorkerGroups cfg addrs W d ! i =
      \<lparr>address = Some (addrs ! i),
       workerIds = [groupStart W g i ..< groupStart W g i + groupSize W g i]\<rparr>"
    if "i < g" for i
  proof -
    have "i < length addrs" using that g_len by simp
    then show ?thesis
      unfolding calc using groupLoop_nth [of 0 0 "W div g" "W mod g" i g addrs] that
      by (simp add: nth_opt_eq groupStart_def groupSize_def)
  qed
  have "g * (W div g) + min g (W mod g) = W"
    using g_pos by (simp add: min_absorb2 less_imp_le)
  then have cat: "concat (map workerIds (calculateWorkerGroups cfg addrs W d)) = [0 ..< W]"
    unfolding calc using groupLoop_concat [of 0 0 "W div g" "W mod g" g addrs] by simp
  show ?thesis
    using m g_pos len nth cat
    unfolding Let_def m_def [symmetric] g_def [symmetric] by simp
qed

theorem calculateWorkerGroups_auto_witness:
  "exampleAddresses \<noteq> [] \<and> (1::nat) \<le> 11 \<and> workerGroupingMode autoConfig = Auto
   \<and> getMinWorkersPerAddress autoConfig 11 ''00ff'' = 3
   \<and> length (calculateWorkerGroups autoConfig exampleAddresses 11 ''00ff'') = 3
   \<and> map workerIds (calculateWorkerGroups autoConfig exampleAddresses 11 ''00ff'')
       = [[0, 1, 2, 3], [4, 5, 6, 7], [8, 9, 10]]"
proof -
  have h1: "exampleAddresses \<noteq> []" by (simp add: exampleAddresses_def)
  have h2: "(1::nat) \<le> 11" by simp
  have h3: "workerGroupingMode autoConfig = Auto" by (simp add: autoConfig_def)
  have mval: "(if (11::nat) \<le> 4 then 11 else max 3 (min 5 (11 div 4))) = (3::nat)" by simp
  have gval: "min ((11::nat) div 3) (length exampleAddresses) = 3"
    by (simp add: exampleAddresses_def)
  note t = calculateWorkerGroups_auto [OF h1 h2 h3, of "''00ff''", unfolded Let_def mval gval]
  from t have m: "getMinWorkersPerAddress autoConfig 11 ''00ff'' = 3" by blast
  from t have len: "length (calculateWorkerGroups autoConfig exampleAddresses 11 ''00ff'') = 3"
    by simp
  from t have el: "\<forall>i<3. calculateWorkerGroups autoConfig exampleAddresses 11 ''00ff'' ! i =
        \<lparr>address = Some (exampleAddresses ! i),
         workerIds = [groupStart 11 3 i ..< groupStart 11 3 i + groupSize 11 3 i]\<rparr>"
    by simp
  have ids: "map workerIds (calculateWorkerGroups autoConfig exampleAddresses 11 ''00ff'')
       = [[0, 1, 2, 3], [4, 5, 6, 7], [8, 9, 10]]"
  proof (rule nth_equalityI)
    show "length (map workerIds (calculateWorkerGroups autoConfig exampleAddresses 11 ''00ff''))
        = length [[0, 1, 2, 3], [4, 5, 6, 7], [8::nat, 9, 10]]"
      using len by simp
  next
    fix i assume "i < length (map workerIds (calculateWorkerGroups autoConfig exampleAddresses 11 ''00ff''))"
    then have i: "i < 3" using len by simp
    then consider "i = 0" | "i = 1" | "i = 2" by linarith
    then show "map workerIds (calculateWorkerGroups autoConfig exampleAddresses 11 ''00ff'') ! i
        = [[0, 1, 2, 3], [4, 5, 6, 7], [8, 9, 10]] ! i"
      using el len by cases (simp_all add: groupStart_def groupSize_def upt_rec)
  qed
  show ?thesis using h1 h3 m len ids by simp
qed


section \<open>Dev-fee manager: proofs\<close>

lemma validateAddresses_AllValid:
  "validateAddresses as i = AllValid \<Longrightarrow>
   \<forall>a \<in> set as. \<exists>s. devAddress a = Some s \<and> (startsWith s ''tnight1'' \<or> startsWith s ''addr1'')"
proof (induction as arbitrary: i)
  case Nil
  then show ?case by simp
next
  case (Cons a as)
  from Cons.prems obtain s where s: "devAddress a = Some s"
    by (cases "devAddress a") auto
  from Cons.prems s have ok: "startsWith s ''tnight1'' \<or> startsWith s ''addr1''"
    and rest: "validateAddresses as (i + 1) = AllValid"
    by (auto split: if_splits)
  from Cons.IH [OF rest] s ok show ?case by auto
qed

lemma prefetch_disabled: "\<not> isEnabled m \<Longrightarrow> prefetchAddressPool r now m = (False, m)"
  by (simp add: prefetchAddressPool_def)

lemma prefetch_true_pool:
  assumes "prefetchAddressPool r now m = (True, m')"
  shows "\<exists>pool. addressPool (cache m') = Some pool \<and> length pool = 10
           \<and> (\<forall>a \<in> set pool. startsWith (dfAddress a) ''tnight1'' \<or> startsWith (dfAddress a) ''addr1'')"
proof -
  from assms obtain addressesData where
    r: "r = PostReturned (Some addressesData)" and len: "length addressesData = 10"
    and val: "validateAddresses addressesData 0 = AllValid"
    and m': "m' = m\<lparr>cache := (cache m)\<lparr>addressPool := Some (map (toDevFeeAddress now) addressesData),
                                          poolFetchedAt := Some now, lastFetchError := None\<rparr>\<rparr>"
    by (auto simp: prefetchAddressPool_def clearPool_def
             split: if_splits prefetch_response.splits option.splits validation.splits)
  have "\<forall>a \<in> set (map (toDevFeeAddress now) addressesData).
          startsWith (dfAddress a) ''tnight1'' \<or> startsWith (dfAddress a) ''addr1''"
    using validateAddresses_AllValid [OF val] by (auto simp: toDevFeeAddress_def)
  then show ?thesis using len m' by simp
qed

lemma prefetch_false_enabled:
  assumes "prefetchAddressPool r now m = (False, m')" and "isEnabled m"
  shows "addressPool (cache m') = Some []"
  using assms
  by (auto simp: prefetchAddressPool_def clearPool_def
           split: if_splits prefetch_response.splits option.splits validation.splits)

text \<open>
  C7 (as amended). After \<open>prefetchAddressPool\<close> resolves \<open>true\<close> the stored pool holds exactly
  10 addresses, each starting with \<open>tnight1\<close> or \<open>addr1\<close>. After it resolves \<open>false\<close> with
  the rotator enabled the stored pool is empty. With the rotator not enabled it resolves
  \<open>false\<close> at its first guard and leaves the manager, and so the stored pool, as it was.
\<close>

theorem prefetchAddressPool_pool:
  "(fst (prefetchAddressPool r now m) \<longrightarrow>
      (\<exists>pool. addressPool (cache (snd (prefetchAddressPool r now m))) = Some pool
          \<and> length pool = 10
          \<and> (\<forall>a \<in> set pool. startsWith (dfAddress a) ''tnight1'' \<or> startsWith (dfAddress a) ''addr1'')))
   \<and> (\<not> fst (prefetchAddressPool r now m) \<and> isEnabled m \<longrightarrow>
        addressPool (cache (snd (prefetchAddressPool r now m))) = Some [])
   \<and> (\<not> isEnabled m \<longrightarrow> prefetchAddressPool r now m = (False, m))"
proof -
  obtain b m' where res: "prefetchAddressPool r now m = (b, m')"
    by (cases "prefetchAddressPool r now m")
  show ?thesis
    using prefetch_true_pool [of r now m m'] prefetch_false_enabled [of r now m m']
      prefetch_disabled [of m r now] res
    by (cases b) auto
qed

text \<open>
  C8. With a valid pool, \<open>getDevFeeAddress c\<close> returns the pool entry at index
  \<open>solutionsThisChallenge mod 10\<close>, where the counter is first reset to \<open>0\<close> and the stored
  challenge id set to \<open>c\<close> whenever the stored id differs from \<open>c\<close>.
\<close>

theorem getDevFeeAddress_pool_index:
  assumes "hasValidAddressPool m" and "addressPool (cache m) = Some pool"
  shows "let k = (if dfCurrentChallengeId (cache m) \<noteq> Some c then 0
                  else case solutionsThisChallenge (cache m) of None \<Rightarrow> 0 | Some n \<Rightarrow> n)
         in fst (getDevFeeAddress c m) = Inr (dfAddress (pool ! (k mod 10)))
          \<and> solutionsThisChallenge (cache (snd (getDevFeeAddress c m))) = Some k
          \<and> dfCurrentChallengeId (cache (snd (getDevFeeAddress c m))) = Some c
          \<and> addressPool (cache (snd (getDevFeeAddress c m))) = Some pool"
proof -
  from assms have len: "length pool = 10" by (simp add: hasValidAddressPool_def)
  show ?thesis
    using assms len
    by (auto simp: getDevFeeAddress_def Let_def nth_opt_eq split: option.splits)
qed

theorem prefetchAddressPool_false_counterexample:
  "fst (prefetchAddressPool (PostFailed ''timeout of 10000ms exceeded'') 0 disabledDevFee) = False
   \<and> addressPool (cache (snd (prefetchAddressPool (PostFailed ''timeout of 10000ms exceeded'') 0
        disabledDevFee))) = Some [exampleDevFeeAddress 0]
   \<and> [exampleDevFeeAddress 0] \<noteq> []"
  by (simp add: prefetchAddressPool_def isEnabled_def disabledDevFee_def)

theorem prefetchAddressPool_pool_witness:
  "fst (prefetchAddressPool (PostReturned (Some exampleApiAddresses)) 7 exampleDevFee)
   \<and> isEnabled exampleDevFee
   \<and> (\<exists>pool. addressPool (cache (snd (prefetchAddressPool (PostReturned (Some exampleApiAddresses)) 7
          exampleDevFee))) = Some pool \<and> length pool = 10
        \<and> (\<forall>a \<in> set pool. startsWith (dfAddress a) ''tnight1'' \<or> startsWith (dfAddress a) ''addr1''))
   \<and> \<not> fst (prefetchAddressPool (PostReturned (Some (take 9 exampleApiAddresses))) 7 exampleDevFee)
   \<and> addressPool (cache (snd (prefetchAddressPool (PostReturned (Some (take 9 exampleApiAddresses))) 7
          exampleDevFee))) = Some []
   \<and> \<not> isEnabled disabledDevFee
   \<and> prefetchAddressPool (PostReturned (Some exampleApiAddresses)) 7 disabledDevFee
       = (False, disabledDevFee)"
proof -
  have en: "isEnabled exampleDevFee"
    by (simp add: isEnabled_def exampleDevFee_def)
  have dis: "\<not> isEnabled disabledDevFee"
    by (simp add: isEnabled_def disabledDevFee_def)
  have val: "validateAddresses exampleApiAddresses 0 = AllValid"
    by (simp add: exampleApiAddresses_def startsWith_def)
  have t: "fst (prefetchAddressPool (PostReturned (Some exampleApiAddresses)) 7 exampleDevFee)"
    using en val by (simp add: prefetchAddressPool_def exampleApiAddresses_def)
  have f: "\<not> fst (prefetchAddressPool (PostReturned (Some (take 9 exampleApiAddresses))) 7 exampleDevFee)"
    using en by (simp add: prefetchAddressPool_def exampleApiAddresses_def)
  show ?thesis
    using t f en dis
      prefetchAddressPool_pool [of "PostReturned (Some exampleApiAddresses)" 7 exampleDevFee]
      prefetchAddressPool_pool [of "PostReturned (Some (take 9 exampleApiAddresses))" 7 exampleDevFee]
      prefetchAddressPool_pool [of "PostReturned (Some exampleApiAddresses)" 7 disabledDevFee]
    by blast
qed

theorem getDevFeeAddress_pool_index_witness:
  "hasValidAddressPool exampleDevFee \<and> addressPool (cache exampleDevFee) = Some examplePool
   \<and> fst (getDevFeeAddress ''**D07C10'' exampleDevFee) = Inr (dfAddress (examplePool ! 2))
   \<and> solutionsThisChallenge (cache (snd (getDevFeeAddress ''**D07C10'' exampleDevFee))) = Some 12
   \<and> fst (getDevFeeAddress ''**D07C11'' exampleDevFee) = Inr (dfAddress (examplePool ! 0))
   \<and> solutionsThisChallenge (cache (snd (getDevFeeAddress ''**D07C11'' exampleDevFee))) = Some 0
   \<and> dfCurrentChallengeId (cache (snd (getDevFeeAddress ''**D07C11'' exampleDevFee))) = Some ''**D07C11''"
proof -
  have v: "hasValidAddressPool exampleDevFee"
    by (simp add: hasValidAddressPool_def exampleDevFee_def exampleCache_def examplePool_def)
  have p: "addressPool (cache exampleDevFee) = Some examplePool"
    by (simp add: exampleDevFee_def exampleCache_def)
  have same: "dfCurrentChallengeId (cache exampleDevFee) = Some ''**D07C10''"
    and cnt: "solutionsThisChallenge (cache exampleDevFee) = Some 12"
    by (simp_all add: exampleDevFee_def exampleCache_def)
  have k1: "(if dfCurrentChallengeId (cache exampleDevFee) \<noteq> Some ''**D07C10'' then 0
             else case solutionsThisChallenge (cache exampleDevFee) of None \<Rightarrow> 0 | Some n \<Rightarrow> n) = 12"
    using same cnt by simp
  have k2: "(if dfCurrentChallengeId (cache exampleDevFee) \<noteq> Some ''**D07C11'' then 0
             else case solutionsThisChallenge (cache exampleDevFee) of None \<Rightarrow> 0 | Some n \<Rightarrow> n) = 0"
    using same by simp
  show ?thesis
    using v p
      getDevFeeAddress_pool_index [OF v p, of "''**D07C10''", unfolded Let_def k1]
      getDevFeeAddress_pool_index [OF v p, of "''**D07C11''", unfolded Let_def k2]
    by simp
qed

section \<open>JavaScript numbers: integers up to \<open>2 ^ 53\<close> are exact\<close>

lemma INFINITY_large: "9007199254740992 \<le> INFINITY"
  by (simp add: INFINITY_def)

lemma toDouble_exact: "n \<le> 9007199254740992 \<Longrightarrow> toDouble n = n"
proof (cases "n < 9007199254740992")
  case True
  then have "ulp n = 1" by (simp add: ulp.simps)
  moreover have "n \<le> INFINITY" using True INFINITY_large by linarith
  ultimately show ?thesis by (simp add: toDouble_def Let_def)
next
  case False
  assume "n \<le> 9007199254740992"
  with False have n: "n = 9007199254740992" by simp
  show ?thesis unfolding n by (simp add: toDouble_def Let_def ulp.simps INFINITY_def)
qed


section \<open>The mining worker: the nonces it enumerates\<close>



lemma followsFrom_simps [simp]:
  "followsFrom ctx c Returned" "followsFrom ctx c Finished"
  "followsFrom ctx c (AwaitPauseSleep loc) = (currentNonce loc = c)"
  "followsFrom ctx c (AwaitServerHash loc hs ns n h vc) = (currentNonce loc = c)"
  "followsFrom ctx c (AwaitSubmit loc hs ns n h) = (currentNonce loc = c)"
  "followsFrom ctx c (AwaitBackoff loc b) = (currentNonce loc = c)"
  "followsFrom ctx c (AwaitHashBatch loc bd) =
     (bd = [c ..< currentNonce loc] \<and> c \<le> currentNonce loc \<and> currentNonce loc \<le> nonceEnd ctx)"
  by (simp_all add: followsFrom_def curOf_def)
















section \<open>Dev-fee trigger, start and challenge transition: proofs\<close>

text \<open>
  C4. \<open>shouldMineDevFeeNow\<close> is true iff the rotator is enabled, its pool holds exactly 10
  addresses, no dev-fee mining is in progress, none of the receipts that
  \<open>getRecentReceipts(ratio)\<close> returns is a dev-fee receipt, and at least \<open>ratio - 1\<close> user
  receipts are among them.
\<close>

theorem shouldMineDevFeeNow_iff:
  "shouldMineDevFeeNow getRecentReceipts s \<longleftrightarrow>
     isEnabled (devFeeManager s)
     \<and> (\<exists>pool. addressPool (cache (devFeeManager s)) = Some pool \<and> length pool = 10)
     \<and> \<not> isDevFeeMining s
     \<and> (\<forall>r \<in> set (getRecentReceipts (ratio (config (devFeeManager s))) (receipts s)). \<not> isDevFee r)
     \<and> int (length (filter (\<lambda>r. \<not> isDevFee r)
               (getRecentReceipts (ratio (config (devFeeManager s))) (receipts s))))
         \<ge> int (ratio (config (devFeeManager s))) - 1"
proof -
  let ?last = "getRecentReceipts (ratio (config (devFeeManager s))) (receipts s)"
  have pool: "hasValidAddressPool (devFeeManager s) \<longleftrightarrow>
      (\<exists>pool. addressPool (cache (devFeeManager s)) = Some pool \<and> length pool = 10)"
    by (simp add: hasValidAddressPool_def split: option.splits)
  have all: "filter (\<lambda>r. \<not> isDevFee r) ?last = ?last" if "\<forall>r \<in> set ?last. \<not> isDevFee r"
    using that by (simp add: filter_id_conv)
  have "shouldMineDevFeeNow getRecentReceipts s \<longleftrightarrow>
      isEnabled (devFeeManager s) \<and> hasValidAddressPool (devFeeManager s) \<and> \<not> isDevFeeMining s
      \<and> (\<forall>r \<in> set ?last. \<not> isDevFee r)
      \<and> int (length ?last) \<ge> int (ratio (config (devFeeManager s))) - 1"
    by (auto simp: shouldMineDevFeeNow_def getRatio_def Let_def list_ex_iff)
  then show ?thesis
    unfolding pool using all by auto
qed

theorem shouldMineDevFeeNow_iff_witness:
  "shouldMineDevFeeNow lastReceipts orchestratorWith16
   \<and> filter isDevFee (lastReceipts (ratio (config (devFeeManager orchestratorWith16)))
                        (receipts orchestratorWith16)) = []
   \<and> length (lastReceipts (ratio (config (devFeeManager orchestratorWith16)))
                (receipts orchestratorWith16)) = 16
   \<and> \<not> shouldMineDevFeeNow lastReceipts exampleOrchestrator"
proof -
  have en: "isEnabled (devFeeManager orchestratorWith16)"
    by (simp add: orchestratorWith16_def exampleOrchestrator_def exampleDevFee_def isEnabled_def)
  have pool: "\<exists>pool. addressPool (cache (devFeeManager orchestratorWith16)) = Some pool
      \<and> length pool = 10"
    by (simp add: orchestratorWith16_def exampleOrchestrator_def exampleDevFee_def exampleCache_def
          examplePool_def)
  have nm: "\<not> isDevFeeMining orchestratorWith16"
    by (simp add: orchestratorWith16_def exampleOrchestrator_def)
  have r: "ratio (config (devFeeManager orchestratorWith16)) = 17"
    by (simp add: orchestratorWith16_def exampleOrchestrator_def exampleDevFee_def)
  have last: "lastReceipts 17 (receipts orchestratorWith16) =
      map userReceipt [0, 1, 2, 3, 4, 5, 6, 7, 8, 9, 10, 11, 12, 13, 14, 15]"
    by (simp add: orchestratorWith16_def lastReceipts_def)
  have none: "\<forall>r \<in> set (lastReceipts 17 (receipts orchestratorWith16)). \<not> isDevFee r"
    unfolding last by (simp add: userReceipt_def)
  have cnt: "int (length (filter (\<lambda>r. \<not> isDevFee r) (lastReceipts 17 (receipts orchestratorWith16))))
      \<ge> int 17 - 1"
    unfolding last by (simp add: userReceipt_def)
  have yes: "shouldMineDevFeeNow lastReceipts orchestratorWith16"
    using en pool nm none cnt shouldMineDevFeeNow_iff [of lastReceipts orchestratorWith16]
    unfolding r by blast
  have few: "\<not> int (length (filter (\<lambda>r. \<not> isDevFee r)
        (lastReceipts (ratio (config (devFeeManager exampleOrchestrator))) (receipts exampleOrchestrator))))
      \<ge> int (ratio (config (devFeeManager exampleOrchestrator))) - 1"
    by (simp add: exampleOrchestrator_def exampleDevFee_def lastReceipts_def)
  have no: "\<not> shouldMineDevFeeNow lastReceipts exampleOrchestrator"
    using few shouldMineDevFeeNow_iff [of lastReceipts exampleOrchestrator] by blast
  have nodev: "filter isDevFee (lastReceipts 17 (receipts orchestratorWith16)) = []"
    unfolding last by (simp add: userReceipt_def)
  have len: "length (lastReceipts 17 (receipts orchestratorWith16)) = 16"
    unfolding last by simp
  show ?thesis using yes nodev len no unfolding r by blast
qed

text \<open>
  C10. \<open>start(password)\<close> on a running orchestrator resolves at once and leaves the
  orchestrator, its timers, the files and the record of external calls as they were.
\<close>

theorem start_while_running:
  "isRunning s \<Longrightarrow> start env password s = (Inr (), s)"
  by (simp add: start_def)

theorem start_while_running_witness:
  "isRunning exampleOrchestrator
   \<and> start exampleStartEnv ''secret'' exampleOrchestrator = (Inr (), exampleOrchestrator)"
proof -
  have r: "isRunning exampleOrchestrator" by (simp add: exampleOrchestrator_def)
  from r start_while_running [OF r, of exampleStartEnv "''secret''"] show ?thesis by simp
qed

lemma finishTransition_returned:
  assumes "(CallsStartMining, t) \<in> set (finishTransition env ch npc s)"
  shows "currentChallengeId t = Some (challenge_id ch) \<and> currentChallenge t = Some ch
         \<and> last (calls t) = StartMining"
  using assms
  by (auto simp: finishTransition_def adoptChallenge_def loadChallengeState_def emit_def Let_def
           split: if_splits option.splits)

lemma finishTransition_stoppedWorkers:
  assumes "(p, t) \<in> set (finishTransition env ch npc s)" and "duringRom env = id"
  shows "stoppedWorkers t = stoppedWorkers s"
  using assms
  by (auto simp: finishTransition_def adoptChallenge_def loadChallengeState_def emit_def Let_def
           split: if_splits option.splits)

text \<open>
  C9 (as amended). On a challenge transition \<open>pollAndMine\<close> first sets \<open>isMining\<close> to false
  and asks the hash engine to kill its workers; when that call is over it clears
  \<open>workerStats\<close>, \<open>addressesProcessedCurrentChallenge\<close>, \<open>pausedAddresses\<close> and
  \<open>submittingAddresses\<close>, with the old challenge still held; only after the following sleep
  (and the ROM phase) it adopts the new challenge and calls \<open>startMining\<close>. \<open>stoppedWorkers\<close>
  is not written at any of these points: without another task running in between, it is at
  every point what it was before the poll. It is \<open>startMining\<close> that clears it, in every
  pass of its loop that forms a batch, before the workers of the batch are launched.
\<close>

theorem pollAndMine_transition:
  assumes "fetched env = Inr response" and "respCode response = Active"
    and "respChallenge response = Some ch"
    and "currentChallengeId s = Some old" and "old \<noteq> []" and "old \<noteq> challenge_id ch"
    and "currentChallenge s = Some cur"
  shows "(\<exists>s1 s2 rest.
      pollAndMine env s = (AwaitKillWorkers, s1) # (AwaitQuiescence, s2) # rest
      \<and> \<not> isMining s1 \<and> calls s1 = calls s @ [KillWorkers]
      \<and> currentChallengeId s1 = Some old
      \<and> workerStats s2 = [] \<and> addressesProcessedCurrentChallenge s2 = {}
      \<and> pausedAddresses s2 = {} \<and> submittingAddresses s2 = {}
      \<and> stoppedWorkers s2 = stoppedWorkers (duringKill env s1)
      \<and> currentChallengeId s2 = currentChallengeId (duringKill env s1)
      \<and> (\<forall>t. (CallsStartMining, t) \<in> set rest \<longrightarrow>
             currentChallengeId t = Some (challenge_id ch) \<and> currentChallenge t = Some ch
             \<and> last (calls t) = StartMining)
      \<and> (duringKill env = id \<and> duringQuiescence env = id \<and> duringRom env = id \<longrightarrow>
             stoppedWorkers s1 = stoppedWorkers s \<and> stoppedWorkers s2 = stoppedWorkers s
             \<and> (\<forall>p t. (p, t) \<in> set rest \<longrightarrow> stoppedWorkers t = stoppedWorkers s)))
      \<and> (startMiningPass getRecentReceipts cid toMine availableWorkers pointer u
             = (LaunchBatch groups checked, u')
             \<longrightarrow> stoppedWorkers u' = {})"
proof -
  define npc where "npc = (no_pre_mine cur \<noteq> no_pre_mine ch)"
  define s1 where "s1 = stopForTransition s"
  define s2 where "s2 = resetForTransition (duringKill env s1)"
  define rest where "rest = finishTransition env ch npc (duringQuiescence env s2)"
  obtain c cs where old: "old = c # cs" using assms(5) by (cases old) auto
  have run: "pollAndMine env s = (AwaitKillWorkers, s1) # (AwaitQuiescence, s2) # rest"
    using assms old
    by (simp add: pollAndMine_def Let_def npc_def s1_def s2_def rest_def)
  have p1: "\<not> isMining s1" "calls s1 = calls s @ [KillWorkers]" "currentChallengeId s1 = Some old"
    "stoppedWorkers s1 = stoppedWorkers s"
    using assms(4) by (simp_all add: s1_def stopForTransition_def)
  have p2: "workerStats s2 = []" "addressesProcessedCurrentChallenge s2 = {}"
    "pausedAddresses s2 = {}" "submittingAddresses s2 = {}"
    "stoppedWorkers s2 = stoppedWorkers (duringKill env s1)"
    "currentChallengeId s2 = currentChallengeId (duringKill env s1)"
    by (simp_all add: s2_def resetForTransition_def)
  have p3: "\<forall>t. (CallsStartMining, t) \<in> set rest \<longrightarrow>
             currentChallengeId t = Some (challenge_id ch) \<and> currentChallenge t = Some ch
             \<and> last (calls t) = StartMining"
    unfolding rest_def using finishTransition_returned by blast
  have p4: "stoppedWorkers s2 = stoppedWorkers s
            \<and> (\<forall>p t. (p, t) \<in> set rest \<longrightarrow> stoppedWorkers t = stoppedWorkers s)"
    if "duringKill env = id" "duringQuiescence env = id" "duringRom env = id"
  proof -
    have a: "stoppedWorkers s2 = stoppedWorkers s" using p2(5) p1(4) that(1) by simp
    have "stoppedWorkers t = stoppedWorkers s" if "(p, t) \<in> set rest" for p t
      using finishTransition_stoppedWorkers [OF that [unfolded rest_def] \<open>duringRom env = id\<close>]
        a \<open>duringQuiescence env = id\<close> by simp
    with a show ?thesis by blast
  qed
  have p5: "stoppedWorkers u' = {}"
    if "startMiningPass getRecentReceipts cid toMine availableWorkers pointer u
          = (LaunchBatch groups checked, u')"
    using that
    by (auto simp: startMiningPass_def Let_def split: if_splits option.splits prod.splits)
  show ?thesis
    using run p1 p2 p3 p4 p5 by blast
qed

theorem pollAndMine_stoppedWorkers_counterexample:
  "map fst (pollAndMine transitionEnv orchestratorWithStopped)
     = [AwaitKillWorkers, AwaitQuiescence, CallsStartMining]
   \<and> currentChallengeId orchestratorWithStopped = Some ''**D07C10''
   \<and> stoppedWorkers orchestratorWithStopped = {1}
   \<and> currentChallengeId (snd (pollAndMine transitionEnv orchestratorWithStopped ! 1)) = Some ''**D07C10''
   \<and> stoppedWorkers (snd (pollAndMine transitionEnv orchestratorWithStopped ! 1)) = {1}
   \<and> currentChallengeId (snd (pollAndMine transitionEnv orchestratorWithStopped ! 2)) = Some ''**D07C11''
   \<and> stoppedWorkers (snd (pollAndMine transitionEnv orchestratorWithStopped ! 2)) = {1}
   \<and> last (calls (snd (pollAndMine transitionEnv orchestratorWithStopped ! 2))) = StartMining"
  by (simp add: pollAndMine_def transitionEnv_def orchestratorWithStopped_def exampleOrchestrator_def
        exampleChallenge_def nextChallenge_def stopForTransition_def resetForTransition_def
        finishTransition_def adoptChallenge_def loadChallengeState_def emit_def Let_def)

theorem pollAndMine_transition_witness:
  "fetched transitionEnv = Inr \<lparr>respCode = Active, respChallenge = Some nextChallenge, starts_at = None\<rparr>
   \<and> currentChallengeId orchestratorWithStopped = Some ''**D07C10''
   \<and> ''**D07C10'' \<noteq> challenge_id nextChallenge
   \<and> currentChallenge orchestratorWithStopped = Some exampleChallenge
   \<and> duringKill transitionEnv = id \<and> duringQuiescence transitionEnv = id
   \<and> duringRom transitionEnv = id
   \<and> (\<exists>s1 s2 rest.
        pollAndMine transitionEnv orchestratorWithStopped
          = (AwaitKillWorkers, s1) # (AwaitQuiescence, s2) # rest
        \<and> \<not> isMining s1 \<and> workerStats s2 = [] \<and> addressesProcessedCurrentChallenge s2 = {}
        \<and> pausedAddresses s2 = {} \<and> submittingAddresses s2 = {}
        \<and> stoppedWorkers s2 = stoppedWorkers orchestratorWithStopped
        \<and> (\<forall>p t. (p, t) \<in> set rest \<longrightarrow> stoppedWorkers t = stoppedWorkers orchestratorWithStopped))
   \<and> fst (startMiningPass lastReceipts ''**D07C11'' exampleAddresses 2 0 afterAdoption)
       = LaunchBatch [\<lparr>address = Some exampleAddress, workerIds = [0, 1]\<rparr>] 1
   \<and> stoppedWorkers afterAdoption = {1}
   \<and> stoppedWorkers (snd (startMiningPass lastReceipts ''**D07C11'' exampleAddresses 2 0 afterAdoption))
       = {}"
proof -
  have pass: "startMiningPass lastReceipts ''**D07C11'' exampleAddresses 2 0 afterAdoption
      = (LaunchBatch [\<lparr>address = Some exampleAddress, workerIds = [0, 1]\<rparr>] 1,
         afterAdoption\<lparr>stoppedWorkers := {}\<rparr>)"
    by (simp add: startMiningPass_def afterAdoption_def startMiningEntry_def pollAndMine_def
          transitionEnv_def orchestratorWithStopped_def exampleOrchestrator_def
          exampleChallenge_def nextChallenge_def stopForTransition_def resetForTransition_def
          finishTransition_def adoptChallenge_def loadChallengeState_def emit_def Let_def
          isSolved_def exampleAddresses_def exampleAddress_def shouldMineDevFeeNow_def
          isEnabled_def hasValidAddressPool_def exampleDevFee_def exampleCache_def
          examplePool_def getRatio_def lastReceipts_def batchSizeFor_def belowCount_def
          getMinWorkersPerAddress_def collectBatch.simps calculateWorkerGroups_def
          groupLoop.simps upt_rec)
  have before: "stoppedWorkers afterAdoption = {1}"
    by (simp add: afterAdoption_def startMiningEntry_def pollAndMine_def
          transitionEnv_def orchestratorWithStopped_def exampleOrchestrator_def
          exampleChallenge_def nextChallenge_def stopForTransition_def resetForTransition_def
          finishTransition_def adoptChallenge_def loadChallengeState_def emit_def Let_def
          isSolved_def exampleAddresses_def)
  have h1: "fetched transitionEnv
      = Inr \<lparr>respCode = Active, respChallenge = Some nextChallenge, starts_at = None\<rparr>"
    by (simp add: transitionEnv_def)
  have h2: "respCode \<lparr>respCode = Active, respChallenge = Some nextChallenge, starts_at = None\<rparr> = Active"
    by simp
  have h3: "respChallenge \<lparr>respCode = Active, respChallenge = Some nextChallenge, starts_at = None\<rparr>
      = Some nextChallenge" by simp
  have h4: "currentChallengeId orchestratorWithStopped = Some ''**D07C10''"
    by (simp add: orchestratorWithStopped_def exampleOrchestrator_def)
  have h5: "''**D07C10'' \<noteq> []" by simp
  have h6: "''**D07C10'' \<noteq> challenge_id nextChallenge" by (simp add: nextChallenge_def)
  have h7: "currentChallenge orchestratorWithStopped = Some exampleChallenge"
    by (simp add: orchestratorWithStopped_def exampleOrchestrator_def)
  have ids: "duringKill transitionEnv = id" "duringQuiescence transitionEnv = id"
    "duringRom transitionEnv = id"
    by (simp_all add: transitionEnv_def)
  note t = pollAndMine_transition [OF h1 h2 h3 h4 h5 h6 h7,
      of lastReceipts "''**D07C11''" exampleAddresses 2 0 afterAdoption
         "[\<lparr>address = Some exampleAddress, workerIds = [0, 1]\<rparr>]" 1
         "afterAdoption\<lparr>stoppedWorkers := {}\<rparr>"]
  from t pass have cleared': "stoppedWorkers (afterAdoption\<lparr>stoppedWorkers := {}\<rparr>) = {}"
    by blast
  from t have "\<exists>s1 s2 rest.
        pollAndMine transitionEnv orchestratorWithStopped
          = (AwaitKillWorkers, s1) # (AwaitQuiescence, s2) # rest
        \<and> \<not> isMining s1 \<and> calls s1 = calls orchestratorWithStopped @ [KillWorkers]
        \<and> currentChallengeId s1 = Some ''**D07C10''
        \<and> workerStats s2 = [] \<and> addressesProcessedCurrentChallenge s2 = {}
        \<and> pausedAddresses s2 = {} \<and> submittingAddresses s2 = {}
        \<and> stoppedWorkers s2 = stoppedWorkers (duringKill transitionEnv s1)
        \<and> currentChallengeId s2 = currentChallengeId (duringKill transitionEnv s1)
        \<and> (\<forall>t. (CallsStartMining, t) \<in> set rest \<longrightarrow>
               currentChallengeId t = Some (challenge_id nextChallenge)
               \<and> currentChallenge t = Some nextChallenge \<and> last (calls t) = StartMining)
        \<and> (duringKill transitionEnv = id \<and> duringQuiescence transitionEnv = id
               \<and> duringRom transitionEnv = id \<longrightarrow>
               stoppedWorkers s1 = stoppedWorkers orchestratorWithStopped
               \<and> stoppedWorkers s2 = stoppedWorkers orchestratorWithStopped
               \<and> (\<forall>p t. (p, t) \<in> set rest \<longrightarrow>
                      stoppedWorkers t = stoppedWorkers orchestratorWithStopped))"
    by (rule conjunct1)
  with ids
  have "\<exists>s1 s2 rest.
        pollAndMine transitionEnv orchestratorWithStopped
          = (AwaitKillWorkers, s1) # (AwaitQuiescence, s2) # rest
        \<and> \<not> isMining s1 \<and> workerStats s2 = [] \<and> addressesProcessedCurrentChallenge s2 = {}
        \<and> pausedAddresses s2 = {} \<and> submittingAddresses s2 = {}
        \<and> stoppedWorkers s2 = stoppedWorkers orchestratorWithStopped
        \<and> (\<forall>p t. (p, t) \<in> set rest \<longrightarrow> stoppedWorkers t = stoppedWorkers orchestratorWithStopped)"
    by (elim exE conjE, intro exI conjI) (assumption | simp)+
  with h1 h4 h6 h7 ids pass before cleared' show ?thesis by simp
qed


section \<open>Discarded and duplicate solutions: proofs\<close>

lemma claimSubmission_effects:
  "addressSubmissionFailures (claimSubmission ctx hash s) = addressSubmissionFailures s"
  "errors (claimSubmission ctx hash s) = errors s"
  "receipts (claimSubmission ctx hash s) = receipts s"
  "submittedSolutions (claimSubmission ctx hash s) = insert hash (submittedSolutions s)"
  "currentChallengeId (claimSubmission ctx hash s) = currentChallengeId s"
  "currentChallenge (claimSubmission ctx hash s) = currentChallenge s"
  by (simp_all add: claimSubmission_def emit_def Let_def)

lemma releaseLocks_silent: "silentlyReleased ctx s (releaseLocks ctx s)"
  by (simp add: silentlyReleased_def releaseLocks_def)

lemma discardForDifficulty_silent: "silentlyReleased ctx s (discardForDifficulty ctx s)"
  by (simp add: silentlyReleased_def discardForDifficulty_def releaseLocks_def unmarkSolved_def
           split: option.splits)

text \<open>
  C1 (as amended). A worker has found a hash that meets the difficulty of its frozen
  snapshot, is not yet in \<open>submittedSolutions\<close>, and for whose key no submission is in
  flight, while its challenge is still the current one.
  \<^item> If the mutable fields of the current snapshot are those of the frozen one, the
    difficulty has changed and the hash does not meet the current difficulty, the worker
    goes on with the rest of the batch, after the discard.
  \<^item> If the mutable fields differ, the worker suspends for the re-hash; when the re-hash
    does not meet the current difficulty, or it does but the difficulty has changed and the
    found hash does not meet it, the worker goes on with the rest of the batch, after the
    discard.

  After either discard the submitting and paused locks of the key are released and the
  failure counters, the error log and the receipts are as before. The hash is not removed
  from \<open>submittedSolutions\<close>: the discard leaves that set as it is, with the hash that was
  inserted when the solution was found.
\<close>

theorem presubmission_discard:
  assumes "md hash (difficulty (challenge ctx))" and "hash \<notin> submittedSolutions s"
    and "submissionKey ctx \<notin> submittingAddresses s"
    and "currentChallengeId s = Some (challengeId ctx)" and "currentChallenge s = Some vc"
  shows
    "(\<not> dataChanged (challenge ctx) vc \<and> difficulty vc \<noteq> difficulty (challenge ctx)
        \<and> \<not> md hash (difficulty vc) \<longrightarrow>
        scanHashes md ctx loc (hash # hashes) (nonce # nonces) s
          = scanHashes md ctx loc hashes nonces (discardForDifficulty ctx (claimSubmission ctx hash s))
        \<and> silentlyReleased ctx (claimSubmission ctx hash s)
             (discardForDifficulty ctx (claimSubmission ctx hash s))
        \<and> addressSubmissionFailures (discardForDifficulty ctx (claimSubmission ctx hash s))
             = addressSubmissionFailures s
        \<and> errors (discardForDifficulty ctx (claimSubmission ctx hash s)) = errors s
        \<and> hash \<in> submittedSolutions (discardForDifficulty ctx (claimSubmission ctx hash s)))
     \<and> (dataChanged (challenge ctx) vc \<longrightarrow>
          scanHashes md ctx loc (hash # hashes) (nonce # nonces) s
            = (AwaitServerHash loc hashes nonces nonce hash vc, claimSubmission ctx hash s)
          \<and> addressSubmissionFailures (claimSubmission ctx hash s) = addressSubmissionFailures s
          \<and> errors (claimSubmission ctx hash s) = errors s
          \<and> hash \<in> submittedSolutions (claimSubmission ctx hash s))
     \<and> (\<not> md serverHash (difficulty vc) \<longrightarrow>
          serverHashDone md ctx loc hashes nonces nonce hash vc (Hashes (serverHash # others)) t
            = scanHashes md ctx loc hashes nonces (releaseLocks ctx t)
          \<and> silentlyReleased ctx t (releaseLocks ctx t))
     \<and> (md serverHash (difficulty vc) \<and> difficulty vc \<noteq> difficulty (challenge ctx)
          \<and> \<not> md hash (difficulty vc) \<longrightarrow>
          serverHashDone md ctx loc hashes nonces nonce hash vc (Hashes (serverHash # others)) t
            = scanHashes md ctx loc hashes nonces (discardForDifficulty ctx t)
          \<and> silentlyReleased ctx t (discardForDifficulty ctx t))"
proof -
  let ?s1 = "claimSubmission ctx hash s"
  have cur: "currentChallengeId ?s1 = Some (challengeId ctx)" "currentChallenge ?s1 = Some vc"
    using assms(4,5) by (simp_all add: claimSubmission_effects)
  have a: "scanHashes md ctx loc (hash # hashes) (nonce # nonces) s
      = scanHashes md ctx loc hashes nonces (discardForDifficulty ctx ?s1)"
    if "\<not> dataChanged (challenge ctx) vc" "difficulty vc \<noteq> difficulty (challenge ctx)"
      "\<not> md hash (difficulty vc)"
    using assms(1-3) cur that by (simp add: Let_def difficultyDiscards_def)
  have b: "scanHashes md ctx loc (hash # hashes) (nonce # nonces) s
      = (AwaitServerHash loc hashes nonces nonce hash vc, ?s1)"
    if "dataChanged (challenge ctx) vc"
    using assms(1-3) cur that by (simp add: Let_def)
  have sil: "silentlyReleased ctx ?s1 (discardForDifficulty ctx ?s1)"
    by (rule discardForDifficulty_silent)
  then have kept: "addressSubmissionFailures (discardForDifficulty ctx ?s1) = addressSubmissionFailures s"
    "errors (discardForDifficulty ctx ?s1) = errors s"
    "hash \<in> submittedSolutions (discardForDifficulty ctx ?s1)"
    by (simp_all add: silentlyReleased_def claimSubmission_effects)
  have c: "serverHashDone md ctx loc hashes nonces nonce hash vc (Hashes (serverHash # others)) t
      = scanHashes md ctx loc hashes nonces (releaseLocks ctx t)"
    if "\<not> md serverHash (difficulty vc)"
    using that by (simp add: serverHashDone_def)
  have d: "serverHashDone md ctx loc hashes nonces nonce hash vc (Hashes (serverHash # others)) t
      = scanHashes md ctx loc hashes nonces (discardForDifficulty ctx t)"
    if "md serverHash (difficulty vc)" "difficulty vc \<noteq> difficulty (challenge ctx)"
      "\<not> md hash (difficulty vc)"
    using that by (simp add: serverHashDone_def difficultyDiscards_def)
  show ?thesis
    using a b c d sil kept releaseLocks_silent [of ctx t] discardForDifficulty_silent [of ctx t]
    by (simp add: claimSubmission_effects)
qed

theorem presubmission_discard_witness:
  "matchesDifficultySpec ''0080'' (difficulty (challenge exampleCtx))
   \<and> ''0080'' \<notin> submittedSolutions harderOrchestrator
   \<and> submissionKey exampleCtx \<notin> submittingAddresses harderOrchestrator
   \<and> currentChallengeId harderOrchestrator = Some (challengeId exampleCtx)
   \<and> currentChallenge harderOrchestrator = Some harderChallenge
   \<and> \<not> dataChanged (challenge exampleCtx) harderChallenge
   \<and> difficulty harderChallenge \<noteq> difficulty (challenge exampleCtx)
   \<and> \<not> matchesDifficultySpec ''0080'' (difficulty harderChallenge)
   \<and> scanHashes matchesDifficultySpec exampleCtx afterFirstBatch [''0080'', ''ffff''] [0, 1]
        harderOrchestrator
       = scanHashes matchesDifficultySpec exampleCtx afterFirstBatch [''ffff''] [1]
           (discardForDifficulty exampleCtx (claimSubmission exampleCtx ''0080'' harderOrchestrator))
   \<and> ''0080'' \<in> submittedSolutions
        (discardForDifficulty exampleCtx (claimSubmission exampleCtx ''0080'' harderOrchestrator))
   \<and> dataChanged (challenge exampleCtx) movedChallenge
   \<and> currentChallenge movedOrchestrator = Some movedChallenge
   \<and> scanHashes matchesDifficultySpec exampleCtx afterFirstBatch [''0080'', ''ffff''] [0, 1]
        movedOrchestrator
       = (AwaitServerHash afterFirstBatch [''ffff''] [1] 0 ''0080'' movedChallenge,
          claimSubmission exampleCtx ''0080'' movedOrchestrator)
   \<and> \<not> matchesDifficultySpec ''ff00'' (difficulty movedChallenge)
   \<and> serverHashDone matchesDifficultySpec exampleCtx afterFirstBatch [''ffff''] [1] 0 ''0080''
        movedChallenge (Hashes [''ff00''])
        (claimSubmission exampleCtx ''0080'' movedOrchestrator)
       = scanHashes matchesDifficultySpec exampleCtx afterFirstBatch [''ffff''] [1]
           (releaseLocks exampleCtx (claimSubmission exampleCtx ''0080'' movedOrchestrator))"
proof -
  have h1: "matchesDifficultySpec ''0080'' (difficulty (challenge exampleCtx))"
    by (simp add: exampleCtx_def exampleChallenge_def matchesDifficultySpec_def nibbleBits_def
          toLowerChar_def)
  have h2: "''0080'' \<notin> submittedSolutions harderOrchestrator"
    "''0080'' \<notin> submittedSolutions movedOrchestrator"
    by (simp_all add: harderOrchestrator_def movedOrchestrator_def exampleOrchestrator_def)
  have h3: "submissionKey exampleCtx \<notin> submittingAddresses harderOrchestrator"
    "submissionKey exampleCtx \<notin> submittingAddresses movedOrchestrator"
    by (simp_all add: harderOrchestrator_def movedOrchestrator_def exampleOrchestrator_def)
  have h4: "currentChallengeId harderOrchestrator = Some (challengeId exampleCtx)"
    "currentChallengeId movedOrchestrator = Some (challengeId exampleCtx)"
    by (simp_all add: harderOrchestrator_def movedOrchestrator_def exampleOrchestrator_def
          exampleCtx_def)
  have h5: "currentChallenge harderOrchestrator = Some harderChallenge"
    "currentChallenge movedOrchestrator = Some movedChallenge"
    by (simp_all add: harderOrchestrator_def movedOrchestrator_def)
  have g1: "\<not> dataChanged (challenge exampleCtx) harderChallenge"
    "difficulty harderChallenge \<noteq> difficulty (challenge exampleCtx)"
    "\<not> matchesDifficultySpec ''0080'' (difficulty harderChallenge)"
    by (simp_all add: exampleCtx_def exampleChallenge_def harderChallenge_def dataChanged_def
          matchesDifficultySpec_def nibbleBits_def toLowerChar_def)
  have g2: "dataChanged (challenge exampleCtx) movedChallenge"
    "\<not> matchesDifficultySpec ''ff00'' (difficulty movedChallenge)"
    by (simp_all add: exampleCtx_def exampleChallenge_def movedChallenge_def dataChanged_def
          matchesDifficultySpec_def nibbleBits_def toLowerChar_def)
  note tA = presubmission_discard [where md = matchesDifficultySpec and hash = "''0080''"
      and ctx = exampleCtx and s = harderOrchestrator and vc = harderChallenge
      and loc = afterFirstBatch and hashes = "[''ffff'']" and nonce = 0 and nonces = "[1]",
      OF h1 h2(1) h3(1) h4(1) h5(1)]
  note tB = presubmission_discard [where md = matchesDifficultySpec and hash = "''0080''"
      and ctx = exampleCtx and s = movedOrchestrator and vc = movedChallenge
      and loc = afterFirstBatch and hashes = "[''ffff'']" and nonce = 0 and nonces = "[1]"
      and serverHash = "''ff00''" and others = "[]"
      and t = "claimSubmission exampleCtx ''0080'' movedOrchestrator",
      OF h1 h2(2) h3(2) h4(2) h5(2)]
  from tA g1 have a: "scanHashes matchesDifficultySpec exampleCtx afterFirstBatch [''0080'', ''ffff'']
        [0, 1] harderOrchestrator
       = scanHashes matchesDifficultySpec exampleCtx afterFirstBatch [''ffff''] [1]
           (discardForDifficulty exampleCtx (claimSubmission exampleCtx ''0080'' harderOrchestrator))"
    "''0080'' \<in> submittedSolutions
        (discardForDifficulty exampleCtx (claimSubmission exampleCtx ''0080'' harderOrchestrator))"
    by blast+
  from tB g2 have b: "scanHashes matchesDifficultySpec exampleCtx afterFirstBatch [''0080'', ''ffff'']
        [0, 1] movedOrchestrator
       = (AwaitServerHash afterFirstBatch [''ffff''] [1] 0 ''0080'' movedChallenge,
          claimSubmission exampleCtx ''0080'' movedOrchestrator)"
    "serverHashDone matchesDifficultySpec exampleCtx afterFirstBatch [''ffff''] [1] 0 ''0080''
        movedChallenge (Hashes [''ff00''])
        (claimSubmission exampleCtx ''0080'' movedOrchestrator)
       = scanHashes matchesDifficultySpec exampleCtx afterFirstBatch [''ffff''] [1]
           (releaseLocks exampleCtx (claimSubmission exampleCtx ''0080'' movedOrchestrator))"
    by blast+
  show ?thesis
    using h1 h2(1) h3(1) h4(1) h5 g1 g2 a b by blast
qed

text \<open>
  The claim as stated fails: in both discards the hash is still in \<open>submittedSolutions\<close>
  when the worker goes on mining (here: when it waits for the hashes of its next batch).
\<close>

theorem presubmission_discard_counterexample:
  "''0080'' \<notin> submittedSolutions harderOrchestrator
   \<and> fst (scanHashes matchesDifficultySpec exampleCtx afterFirstBatch [''0080'', ''ffff''] [0, 1]
            harderOrchestrator)
       = AwaitHashBatch \<lparr>hashCount = 2, batchCounter = 2, currentNonce = 4\<rparr> [2, 3]
   \<and> ''0080'' \<in> submittedSolutions
        (snd (scanHashes matchesDifficultySpec exampleCtx afterFirstBatch [''0080'', ''ffff''] [0, 1]
               harderOrchestrator))
   \<and> ''0080'' \<notin> submittedSolutions movedOrchestrator
   \<and> fst (scanHashes matchesDifficultySpec exampleCtx afterFirstBatch [''0080'', ''ffff''] [0, 1]
            movedOrchestrator)
       = AwaitServerHash afterFirstBatch [''ffff''] [1] 0 ''0080'' movedChallenge
   \<and> fst (serverHashDone matchesDifficultySpec exampleCtx afterFirstBatch [''ffff''] [1] 0 ''0080''
        movedChallenge (Hashes [''ff00''])
        (snd (scanHashes matchesDifficultySpec exampleCtx afterFirstBatch [''0080'', ''ffff''] [0, 1]
               movedOrchestrator)))
       = AwaitHashBatch \<lparr>hashCount = 2, batchCounter = 2, currentNonce = 4\<rparr> [2, 3]
   \<and> ''0080'' \<in> submittedSolutions
        (snd (serverHashDone matchesDifficultySpec exampleCtx afterFirstBatch [''ffff''] [1] 0 ''0080''
          movedChallenge (Hashes [''ff00''])
          (snd (scanHashes matchesDifficultySpec exampleCtx afterFirstBatch [''0080'', ''ffff''] [0, 1]
                 movedOrchestrator))))"
  by (simp add: exampleOrchestrator_def exampleAddress_def exampleChallenge_def exampleCtx_def
        harderChallenge_def harderOrchestrator_def movedChallenge_def movedOrchestrator_def
        afterFirstBatch_def
        mineForAddress_def mineForAddressEntry_def orElse_def Let_def loopHead_def nonceStart_def
        nonceEnd_def NONCE_RANGE_SIZE_def toDouble_exact emit_def mapSet_def submissionKey_def isSolved_def
        getBatchSize_def generateBatch.simps resumeWorker_def hashBatchDone_def
        endOfIteration_def reportProgress_def mapChange_def matchesDifficultySpec_def
        nibbleBits_def toLowerChar_def claimSubmission_def releaseLocks_def dataChanged_def
        difficultyDiscards_def discardForDifficulty_def unmarkSolved_def markSolved_def
        workerFinished_def setStatus_def submissionDone_def serverHashDone_def
        catchBatchError_def)

text \<open>
  C2, evaluated at a run of two workers on one address (see \<open>raceStartA\<close> for the run).
  Worker 0 submits successfully, so the pair of the address and the challenge is in
  \<open>solvedAddressChallenges\<close>. Then worker 1 finds a hash that no longer meets the changed
  difficulty, and its discard deletes the pair from \<open>solvedAddressChallenges\<close> again, while
  the receipt of the accepted solution stays in the receipts log.
\<close>

theorem solved_pair_removed_by_discard:
  "map fst raceStartA
     = [AwaitHashBatch \<lparr>hashCount = 0, batchCounter = 1, currentNonce = 2\<rparr> [0, 1]]
   \<and> map fst raceStartB
     = [AwaitHashBatch \<lparr>hashCount = 0, batchCounter = 1, currentNonce = 1000000002\<rparr>
          [1000000000, 1000000001]]
   \<and> map fst racePoll = [PollReturned]
   \<and> fst raceFoundA
     = AwaitSubmit \<lparr>hashCount = 2, batchCounter = 1, currentNonce = 2\<rparr> [''ffff''] [1] 0 ''0040''
   \<and> fst raceSubmittedA = Returned
   \<and> isSolved (snd raceSubmittedA) ''addr1a'' ''**D07C10''
   \<and> map rAddress (receipts (snd raceSubmittedA)) = [''addr1a'']
   \<and> map rChallengeId (receipts (snd raceSubmittedA)) = [''**D07C10'']
   \<and> fst raceFoundB = Returned
   \<and> \<not> isSolved (snd raceFoundB) ''addr1a'' ''**D07C10''
   \<and> receipts (snd raceFoundB) = receipts (snd raceSubmittedA)"
  by (simp add: raceFoundA_def raceSubmittedA_def raceFoundB_def raceStartA_def raceStartB_def
        racePoll_def pollAndMine_def exampleOrchestrator_def exampleAddress_def
        exampleChallenge_def exampleCtx_def harderChallenge_def exampleSubmitEnv_def
        submitSolution.simps solutionAccepted_def logReceipt_def
        mineForAddress_def mineForAddressEntry_def orElse_def Let_def loopHead_def nonceStart_def
        nonceEnd_def NONCE_RANGE_SIZE_def toDouble_exact emit_def mapSet_def submissionKey_def isSolved_def
        getBatchSize_def generateBatch.simps resumeWorker_def hashBatchDone_def
        endOfIteration_def reportProgress_def mapChange_def matchesDifficultySpec_def
        nibbleBits_def toLowerChar_def claimSubmission_def releaseLocks_def dataChanged_def
        difficultyDiscards_def discardForDifficulty_def unmarkSolved_def markSolved_def
        workerFinished_def setStatus_def submissionDone_def serverHashDone_def
        catchBatchError_def)

text \<open>Inserting into \<open>solvedAddressChallenges\<close> keeps what it holds.\<close>

lemma markSolved_keeps: "isSolved s a c \<Longrightarrow> isSolved (markSolved a' c' s) a c"
  by (auto simp: isSolved_def markSolved_def split: option.splits)

lemma markSolved_solves: "isSolved (markSolved a c s) a c"
  by (simp add: isSolved_def markSolved_def)

text \<open>
  C5, evaluated at the response of the specification's scenario: status 400 with the body
  \<open>{"error": "solution already exists"}\<close>. \<open>submitSolution\<close> replaces the response by
  \<open>new Error(`Server rejected solution: 400 Bad Request`)\<close> before its \<open>catch\<close> block
  looks for the duplicate, so the promise rejects, the pair is not marked solved, the error
  log gets the generic entry, and the worker counts a failed submission.
\<close>

theorem submitSolution_duplicate_response_rejected:
  "fst (submitSolution duplicateEnv exampleAddress ''**D07C10'' (nonceHex 0) ''0040'' False False
          exampleOrchestrator)
     = Inl (plainError ''Server rejected solution: 400 Bad Request'')
   \<and> \<not> isSolved (snd (submitSolution duplicateEnv exampleAddress ''**D07C10'' (nonceHex 0) ''0040''
                        False False exampleOrchestrator)) ''addr1a'' ''**D07C10''
   \<and> map eError (errors (snd (submitSolution duplicateEnv exampleAddress ''**D07C10'' (nonceHex 0)
                        ''0040'' False False exampleOrchestrator)))
     = [''Server rejected solution: 400 Bad Request'']
   \<and> addressSubmissionFailures
        (snd (submissionDone matchesDifficultySpec exampleCtx afterFirstBatch [] [] ''0040''
                (fst (submitSolution duplicateEnv exampleAddress ''**D07C10'' (nonceHex 0) ''0040''
                        False False exampleOrchestrator))
                (snd (submitSolution duplicateEnv exampleAddress ''**D07C10'' (nonceHex 0) ''0040''
                        False False exampleOrchestrator))))
        (submissionKey exampleCtx) = Some 1"
proof -
  have msg: "''Server rejected solution: '' @ showNat 400 @ '' '' @ ''Bad Request''
      = ''Server rejected solution: 400 Bad Request''"
    by (simp add: showNat.simps digitChar_def)
  have dup: "\<not> isSolutionAlreadyExists (plainError ''Server rejected solution: 400 Bad Request'')"
    by (simp add: isSolutionAlreadyExists_def errorMessageOf_def plainError_def dataMessage_def
          dataError_def responseData_def responseStatus_def orElse_def toLowerCase_def
          toLowerChar_def startsWith_def)
  have reg: "\<not> isNotRegisteredError (plainError ''Server rejected solution: 400 Bad Request'')"
    by (simp add: isNotRegisteredError_def errorMessageOf_def plainError_def dataMessage_def
          dataError_def responseData_def responseStatus_def orElse_def toLowerCase_def
          toLowerChar_def startsWith_def)
  have tmo: "\<not> isTimeoutError (plainError ''Server rejected solution: 400 Bad Request'')"
    by (simp add: isTimeoutError_def plainError_def toLowerCase_def toLowerChar_def startsWith_def)
  have shown: "(case orElse (dataMessage (plainError ''Server rejected solution: 400 Bad Request''))
                    (Some (errMessage (plainError ''Server rejected solution: 400 Bad Request''))) of
               None \<Rightarrow> [] | Some m \<Rightarrow> m) = ''Server rejected solution: 400 Bad Request''"
    by (simp add: plainError_def dataMessage_def responseData_def orElse_def)
  have wm: "walletManager exampleOrchestrator" by (simp add: exampleOrchestrator_def)
  have res: "submitSolution duplicateEnv exampleAddress ''**D07C10'' (nonceHex 0) ''0040'' False False
          exampleOrchestrator
      = (Inl (plainError ''Server rejected solution: 400 Bad Request''),
         emit ''solution_result''
           (logError (errorEntry exampleAddress ''**D07C10'' (nonceHex 0) ''0040''
                        ''Server rejected solution: 400 Bad Request''
                        (responseData (plainError ''Server rejected solution: 400 Bad Request'')))
              exampleOrchestrator))"
    by (subst submitSolution.simps)
       (simp add: wm duplicateEnv_def msg dup reg tmo shown del: append.simps)
  have unsolved: "\<not> isSolved
        (emit ''solution_result''
           (logError (errorEntry exampleAddress ''**D07C10'' (nonceHex 0) ''0040''
                        ''Server rejected solution: 400 Bad Request''
                        (responseData (plainError ''Server rejected solution: 400 Bad Request'')))
              exampleOrchestrator)) ''addr1a'' ''**D07C10''"
    by (simp add: isSolved_def emit_def logError_def exampleOrchestrator_def)
  have logged: "map eError (errors
        (emit ''solution_result''
           (logError (errorEntry exampleAddress ''**D07C10'' (nonceHex 0) ''0040''
                        ''Server rejected solution: 400 Bad Request''
                        (responseData (plainError ''Server rejected solution: 400 Bad Request'')))
              exampleOrchestrator)))
      = [''Server rejected solution: 400 Bad Request'']"
    by (simp add: emit_def logError_def errorEntry_def exampleOrchestrator_def)
  have counted: "addressSubmissionFailures
        (snd (submissionDone matchesDifficultySpec exampleCtx afterFirstBatch [] [] ''0040''
                (Inl (plainError ''Server rejected solution: 400 Bad Request''))
                (emit ''solution_result''
                   (logError (errorEntry exampleAddress ''**D07C10'' (nonceHex 0) ''0040''
                        ''Server rejected solution: 400 Bad Request''
                        (responseData (plainError ''Server rejected solution: 400 Bad Request'')))
                      exampleOrchestrator))))
        (submissionKey exampleCtx) = Some 1"
    by (simp add: submissionDone_def Let_def emit_def logError_def exampleOrchestrator_def
          exampleCtx_def exampleAddress_def exampleChallenge_def afterFirstBatch_def
          submissionKey_def endOfIteration_def reportProgress_def loopHead_def nonceEnd_def
          nonceStart_def NONCE_RANGE_SIZE_def toDouble_exact workerFinished_def setStatus_def mapChange_def
          isSolved_def)
  show ?thesis
    unfolding res fst_conv snd_conv using unsolved logged counted by simp
qed

text \<open>
  What \<open>submitSolution\<close> does when the error it catches does carry the duplicate message,
  as an error thrown by axios itself does (status 500 or above, or no response at all).
\<close>

lemma submitSolution_duplicate_thrown:
  assumes "walletManager s" and "post env = Threw e" and "isSolutionAlreadyExists e"
  shows "submitSolution env a cid nonce hash devFee isRetry s
     = (Inr (),
        logError (errorEntry a cid nonce hash
                    ''Duplicate submission - solution already exists (another worker succeeded)''
                    (responseData e))
          (markSolved (bech32 a) cid s))"
  using assms by (subst submitSolution.simps) simp

text \<open>The body of a rejected response is never read.\<close>

lemma submitSolution_rejected_body_ignored:
  assumes "post env = Responded status statusText dat" and "\<not> (200 \<le> status \<and> status < 300)"
  shows "submitSolution env a cid nonce hash devFee isRetry s
     = submitSolution (env\<lparr>post := Responded status statusText dat'\<rparr>) a cid nonce hash devFee isRetry s"
proof -
  have c: "(200 \<le> status \<and> status < 300) = False" using assms(2) by simp
  have unfold: "submitSolution e a cid nonce hash devFee isRetry s
      = (if \<not> walletManager s then (Inr (), s)
         else
           let error = plainError (''Server rejected solution: '' @ showNat status @ '' '' @ statusText)
           in if isSolutionAlreadyExists error then
                (Inr (),
                 logError (errorEntry a cid nonce hash
                             ''Duplicate submission - solution already exists (another worker succeeded)''
                             (responseData error))
                   (markSolved (bech32 a) cid s))
              else if isNotRegisteredError error \<and> \<not> isRetry then
                (case registerAddress (registration e) a s of
                   (Inl registrationError, s1) \<Rightarrow>
                     (Inl registrationError,
                      emit ''solution_result''
                        (logError (errorEntry a cid nonce hash
                                     (''Auto-registration failed: '' @ errMessage registrationError
                                        @ ''. Original error: '' @ errorMessageOf error)
                                     (responseData error)) s1))
                 | (Inr u, s1) \<Rightarrow>
                     (case submitSolution (e\<lparr>post := retryPost e\<rparr>) a cid nonce hash devFee True s1 of
                        (Inr v, s2) \<Rightarrow> (Inr (), s2)
                      | (Inl registrationError, s2) \<Rightarrow>
                          (Inl registrationError,
                           emit ''solution_result''
                             (logError (errorEntry a cid nonce hash
                                          (''Auto-registration failed: '' @ errMessage registrationError
                                             @ ''. Original error: '' @ errorMessageOf error)
                                          (responseData error)) s2))))
              else if isTimeoutError error then
                (Inl error,
                 logError (errorEntry a cid nonce hash
                             ''Submission timeout after 60s - uncertain state (may have been accepted by server)''
                             None) s)
              else
                (Inl error,
                 emit ''solution_result''
                   (logError (errorEntry a cid nonce hash
                                (case orElse (dataMessage error) (Some (errMessage error)) of
                                   None \<Rightarrow> [] | Some m \<Rightarrow> m)
                                (responseData error)) s)))"
    if "post e = Responded status statusText d" for e d
    using that by (subst submitSolution.simps) (simp add: Let_def c)
  show ?thesis
    unfolding unfold [OF assms(1)]
    by (subst unfold [of "env\<lparr>post := Responded status statusText dat'\<rparr>" dat'])
       (simp_all add: Let_def split: prod.split sum.split)
qed


end
